theory Spec2Isabelle
  imports Complex_Main "HOL-Library.Sublist"
begin

section \<open>JavaScript values\<close>

text \<open>
  The program is TypeScript over plain JavaScript objects: TypeBox schemas, OpenAPI
  parameter objects and the OpenAPI document itself are all object trees. They are
  modelled by one datatype of values. An object is the list of its own properties in
  insertion order; a property key is a string or a symbol (TypeBox tags its schemas with
  the symbols \<open>Kind\<close> and \<open>OptionalKind\<close>, which \<open>Object.keys\<close>, the spread of
  \<open>JSON.stringify\<close> and \<open>isDeepEqual\<close> do not see).

  Numbers are reals with \<open>NaN\<close> apart (doubles behave so on the integers below
  \<open>2^53\<close> that a sample count reaches). Objects are trees: two places of a tree
  never share one mutable object, and identity of objects (\<open>===\<close> on two objects)
  is not observable; where the source relies on the identity of a schema node, the node is
  passed in and returned updated.
\<close>

datatype pkey = Key string | Sym string

datatype jsval =
    Undefined
  | Null
  | Bool bool
  | Num real
  | NaN
  | Str string
  | Arr "jsval list"
  | Obj "(pkey \<times> jsval) list"

datatype error =
    TypeError
  | SyntaxError
  | Error string

type_synonym 'a result = "error + 'a"

subsection \<open>Decimal rendering of an index\<close>

definition digit_char :: "nat \<Rightarrow> char" where
  "digit_char d = ''0123456789'' ! d"

function num_str :: "nat \<Rightarrow> string" where
  "num_str n =
     (if n < 10 then [digit_char n] else num_str (n div 10) @ [digit_char (n mod 10)])"
  by pat_completeness auto
termination
  by (relation "measure id") auto

declare num_str.simps [simp del]

subsection \<open>Property access\<close>

fun isObjectLike :: "jsval \<Rightarrow> bool" where
  "isObjectLike (Arr _) = True"
| "isObjectLike (Obj _) = True"
| "isObjectLike _ = False"

fun isArray :: "jsval \<Rightarrow> bool" where
  "isArray (Arr _) = True"
| "isArray _ = False"

fun nullish :: "jsval \<Rightarrow> bool" where
  "nullish Undefined = True"
| "nullish Null = True"
| "nullish _ = False"

text \<open>JavaScript truthiness, as the condition of an \<open>if\<close> reads a value.\<close>

fun truthy :: "jsval \<Rightarrow> bool" where
  "truthy Undefined = False"
| "truthy Null = False"
| "truthy NaN = False"
| "truthy (Bool b) = b"
| "truthy (Num r) = (r \<noteq> 0)"
| "truthy (Str s) = (s \<noteq> [])"
| "truthy _ = True"

text \<open>
  \<open>a === b\<close> on primitives. On two objects \<open>===\<close> is identity; it is taken to be false
  there, which is what two distinct objects give (see \<open>isDeepEqual\<close> for why the same
  object gives the same answer in the end).
\<close>

fun strict_eq :: "jsval \<Rightarrow> jsval \<Rightarrow> bool" where
  "strict_eq Undefined Undefined = True"
| "strict_eq Null Null = True"
| "strict_eq (Bool a) (Bool b) = (a = b)"
| "strict_eq (Num a) (Num b) = (a = b)"
| "strict_eq (Str a) (Str b) = (a = b)"
| "strict_eq _ _ = False"

fun elems :: "jsval \<Rightarrow> jsval list" where
  "elems (Arr xs) = xs"
| "elems _ = []"

text \<open>\<open>Object.keys(v)\<close>: the own enumerable string keys; a string has its indices.\<close>

fun Object_keys :: "jsval \<Rightarrow> string list" where
  "Object_keys (Obj kvs) =
     concat (map (\<lambda>(k, v). case k of Key s \<Rightarrow> [s] | Sym _ \<Rightarrow> []) kvs)"
| "Object_keys (Arr xs) = map num_str [0..<length xs]"
| "Object_keys (Str s) = map num_str [0..<length s]"
| "Object_keys _ = []"

text \<open>\<open>v[k]\<close> for a value that is not \<open>undefined\<close> or \<open>null\<close>.\<close>

fun getProp :: "jsval \<Rightarrow> string \<Rightarrow> jsval" where
  "getProp (Obj kvs) k = (case map_of kvs (Key k) of Some v \<Rightarrow> v | None \<Rightarrow> Undefined)"
| "getProp (Arr xs) k =
     (case find (\<lambda>i. num_str i = k) [0..<length xs] of
        Some i \<Rightarrow> xs ! i | None \<Rightarrow> Undefined)"
| "getProp (Str s) k =
     (case find (\<lambda>i. num_str i = k) [0..<length s] of
        Some i \<Rightarrow> Str [s ! i] | None \<Rightarrow> Undefined)"
| "getProp _ k = Undefined"

text \<open>\<open>k in v\<close> for an object \<open>v\<close>.\<close>

fun hasKey :: "jsval \<Rightarrow> string \<Rightarrow> bool" where
  "hasKey (Obj kvs) k = (Key k \<in> fst ` set kvs)"
| "hasKey _ k = False"

text \<open>
  \<open>o[k] = v\<close> on the property list of an object: an existing property keeps its place,
  a new one goes to the end. \<open>delete o[k]\<close> removes it.
\<close>

fun putKey :: "pkey \<Rightarrow> jsval \<Rightarrow> (pkey \<times> jsval) list \<Rightarrow> (pkey \<times> jsval) list" where
  "putKey k v [] = [(k, v)]"
| "putKey k v ((k', w) # rest) =
     (if k' = k then (k', v) # rest else (k', w) # putKey k v rest)"

fun setProp :: "string \<Rightarrow> jsval \<Rightarrow> jsval \<Rightarrow> jsval" where
  "setProp k v (Obj kvs) = Obj (putKey (Key k) v kvs)"
| "setProp k v other = other"

fun deleteProp :: "string \<Rightarrow> jsval \<Rightarrow> jsval" where
  "deleteProp k (Obj kvs) = Obj (filter (\<lambda>(k', w). k' \<noteq> Key k) kvs)"
| "deleteProp k other = other"

subsection \<open>Numbers\<close>

text \<open>
  A number of the program is a double. The model keeps its value as a real, and a result
  of arithmetic is rounded to the nearest double, ties to the even significand:
  \<open>binade x\<close> is the exponent of \<open>x\<close>, \<open>\<lfloor>log\<^sub>2 |x|\<rfloor>\<close>, computed from the bit length
  of an integer, and the unit in the last place is \<open>2\<^sup>e\<^sup>-\<^sup>5\<^sup>2\<close> with the exponent
  not below that of the least normal number. The sum of a double and 1 does not overflow.
\<close>

function bitLength :: "int \<Rightarrow> nat" where
  "bitLength n = (if n \<le> 0 then 0 else Suc (bitLength (n div 2)))"
  by pat_completeness auto
termination
  by (relation "measure nat") auto

declare bitLength.simps [simp del]

definition binade :: "real \<Rightarrow> int" where
  "binade x =
     (if \<bar>x\<bar> \<ge> 1 then int (bitLength \<lfloor>\<bar>x\<bar>\<rfloor>) - 1
      else - int (bitLength (\<lceil>1 / \<bar>x\<bar>\<rceil> - 1)))"

definition roundHalfEven :: "real \<Rightarrow> int" where
  "roundHalfEven x =
     (let f = \<lfloor>x\<rfloor>; d = x - of_int f
      in if d < 1 / 2 then f else if d > 1 / 2 then f + 1 else if even f then f else f + 1)"

definition roundToDouble :: "real \<Rightarrow> real" where
  "roundToDouble x =
     (if x = 0 then 0
      else let ulp = 2 powi (max (binade x) (- 1022) - 52)
           in of_int (roundHalfEven (x / ulp)) * ulp)"

text \<open>
  \<open>ToNumber\<close>, the conversion that \<open>>=\<close> and \<open>+\<close> apply to an operand that is not a
  number. Its result may be an infinity or \<open>NaN\<close>. A string is trimmed of white space and
  read as \<open>StringNumericLiteral\<close>: empty gives 0; \<open>0x\<close>, \<open>0o\<close> and \<open>0b\<close>
  introduce digits of that base; else an optional sign and \<open>Infinity\<close> or a decimal
  literal with optional fraction and exponent; anything else gives \<open>NaN\<close>. The value is
  rounded to a double, to an infinity from \<open>2\<^sup>1\<^sup>0\<^sup>2\<^sup>4\<close> on. A character is a code
  unit below 256.
\<close>

datatype numeric = Number real | PlusInfinity | MinusInfinity | NotANumber

definition roundNumeric :: "real \<Rightarrow> numeric" where
  "roundNumeric x =
     (let r = roundToDouble x
      in if \<bar>r\<bar> \<ge> 2 ^ 1024 then (if x > 0 then PlusInfinity else MinusInfinity) else Number r)"

fun negateNumeric :: "numeric \<Rightarrow> numeric" where
  "negateNumeric (Number r) = Number (- r)"
| "negateNumeric PlusInfinity = MinusInfinity"
| "negateNumeric MinusInfinity = PlusInfinity"
| "negateNumeric NotANumber = NotANumber"

definition isWhiteSpace :: "char \<Rightarrow> bool" where
  "isWhiteSpace c = (of_char c \<in> {9, 10, 11, 12, 13, 32, 160 :: nat})"

definition trimString :: "string \<Rightarrow> string" where
  "trimString s = rev (dropWhile isWhiteSpace (rev (dropWhile isWhiteSpace s)))"

definition digitValue :: "char \<Rightarrow> int option" where
  "digitValue c =
     (let n = of_char c :: int
      in if 48 \<le> n \<and> n \<le> 57 then Some (n - 48)
         else if 97 \<le> n \<and> n \<le> 102 then Some (n - 87)
         else if 65 \<le> n \<and> n \<le> 70 then Some (n - 55)
         else None)"

fun digitsFrom :: "int \<Rightarrow> int \<Rightarrow> string \<Rightarrow> int option" where
  "digitsFrom b acc [] = Some acc"
| "digitsFrom b acc (c # cs) =
     (case digitValue c of
        None \<Rightarrow> None
      | Some d \<Rightarrow> if d < b then digitsFrom b (acc * b + d) cs else None)"

definition digits :: "int \<Rightarrow> string \<Rightarrow> int option" where
  "digits b s = (if s = [] then None else digitsFrom b 0 s)"

definition splitAt :: "(char \<Rightarrow> bool) \<Rightarrow> string \<Rightarrow> string \<times> string option" where
  "splitAt p s =
     (let rest = dropWhile (\<lambda>c. \<not> p c) s
      in (takeWhile (\<lambda>c. \<not> p c) s, if rest = [] then None else Some (tl rest)))"

definition exponentValue :: "string option \<Rightarrow> int option" where
  "exponentValue ex =
     (case ex of
        None \<Rightarrow> Some 0
      | Some [] \<Rightarrow> None
      | Some (c # ds) \<Rightarrow>
          if c = CHR ''+'' then digits 10 ds
          else if c = CHR ''-'' then map_option uminus (digits 10 ds)
          else digits 10 (c # ds))"

definition mantissaValue :: "string \<Rightarrow> real option" where
  "mantissaValue m =
     (case splitAt (\<lambda>c. c = CHR ''.'') m of
        (whole, None) \<Rightarrow> map_option of_int (digits 10 whole)
      | (whole, Some fraction) \<Rightarrow>
          if whole = [] \<and> fraction = [] then None
          else (case (if whole = [] then Some 0 else digits 10 whole,
                      if fraction = [] then Some 0 else digits 10 fraction) of
                  (Some a, Some b) \<Rightarrow> Some (of_int a + of_int b / 10 ^ length fraction)
                | _ \<Rightarrow> None))"

definition unsignedDecimal :: "string \<Rightarrow> numeric" where
  "unsignedDecimal s =
     (if s = ''Infinity'' then PlusInfinity
      else case splitAt (\<lambda>c. c = CHR ''e'' \<or> c = CHR ''E'') s of
        (m, ex) \<Rightarrow>
          (case (mantissaValue m, exponentValue ex) of
             (Some v, Some e) \<Rightarrow> roundNumeric (v * 10 powi e)
           | _ \<Rightarrow> NotANumber))"

definition radixLiteral :: "int \<Rightarrow> string \<Rightarrow> numeric" where
  "radixLiteral b ds =
     (case digits b ds of Some n \<Rightarrow> roundNumeric (of_int n) | None \<Rightarrow> NotANumber)"

definition StringToNumber :: "string \<Rightarrow> numeric" where
  "StringToNumber text =
     (let s = trimString text
      in if s = [] then Number 0
         else if take 2 s = ''0x'' \<or> take 2 s = ''0X'' then radixLiteral 16 (drop 2 s)
         else if take 2 s = ''0o'' \<or> take 2 s = ''0O'' then radixLiteral 8 (drop 2 s)
         else if take 2 s = ''0b'' \<or> take 2 s = ''0B'' then radixLiteral 2 (drop 2 s)
         else if take 1 s = ''+'' then unsignedDecimal (drop 1 s)
         else if take 1 s = ''-'' then negateNumeric (unsignedDecimal (drop 1 s))
         else unsignedDecimal s)"

text \<open>
  An array is converted through its text, the texts of its elements joined by commas: no
  element gives 0, one element gives what its text gives (the text of a number reads
  back as that number), more give \<open>NaN\<close>. A plain object gives \<open>NaN\<close>.
\<close>

fun ToNumber :: "jsval \<Rightarrow> numeric" where
  "ToNumber Undefined = NotANumber"
| "ToNumber Null = Number 0"
| "ToNumber (Bool b) = Number (if b then 1 else 0)"
| "ToNumber (Num c) = Number c"
| "ToNumber NaN = NotANumber"
| "ToNumber (Str s) = StringToNumber s"
| "ToNumber (Arr []) = Number 0"
| "ToNumber (Arr [x]) =
     (case x of
        Undefined \<Rightarrow> Number 0
      | Null \<Rightarrow> Number 0
      | Num c \<Rightarrow> Number c
      | Str s \<Rightarrow> StringToNumber s
      | Arr ys \<Rightarrow> ToNumber (Arr ys)
      | _ \<Rightarrow> NotANumber)"
| "ToNumber (Arr (x # y # zs)) = NotANumber"
| "ToNumber (Obj kvs) = NotANumber"

text \<open>
  \<open>ToString\<close>, as a template literal \<open>`${v}`\<close>, a property key and \<open>+\<close> with a
  string apply it. An array joins its elements by commas, \<open>undefined\<close> and \<open>null\<close>
  among them giving the empty text; a plain object gives \<open>[object Object]\<close>. An integer
  below \<open>10\<^sup>2\<^sup>1\<close> is written in decimal digits; the text of any other number (its
  shortest decimal that reads back) is not modelled and is left empty.
\<close>

definition numberText :: "real \<Rightarrow> string" where
  "numberText c =
     (if of_int \<lfloor>c\<rfloor> = c \<and> \<bar>c\<bar> < 10 ^ 21
      then (if c < 0 then ''-'' else []) @ num_str (nat \<bar>\<lfloor>c\<rfloor>\<bar>)
      else [])"

fun templateStr :: "jsval \<Rightarrow> string" and joinText :: "jsval list \<Rightarrow> string" where
  "templateStr (Str s) = s"
| "templateStr Undefined = ''undefined''"
| "templateStr Null = ''null''"
| "templateStr (Bool b) = (if b then ''true'' else ''false'')"
| "templateStr NaN = ''NaN''"
| "templateStr (Num c) = numberText c"
| "templateStr (Arr xs) = joinText xs"
| "templateStr (Obj kvs) = ''[object Object]''"
| "joinText [] = []"
| "joinText [x] = (if x = Undefined \<or> x = Null then [] else templateStr x)"
| "joinText (x # y # zs) =
     (if x = Undefined \<or> x = Null then [] else templateStr x) @ '','' @ joinText (y # zs)"

text \<open>
  \<open>s.includes(t)\<close> on a string: \<open>t\<close> occurs in \<open>s\<close>.
\<close>

fun includesText :: "string \<Rightarrow> string \<Rightarrow> bool" where
  "includesText [] t = (t = [])"
| "includesText (c # cs) t = (prefix t (c # cs) \<or> includesText cs t)"

subsection \<open>Sizes of parts, for the recursions below\<close>

lemma size_map_of:
  "map_of kvs k = Some v \<Longrightarrow> size v < Suc (size_list (size_prod (\<lambda>_. 0) size) kvs)"
  by (induction kvs) (auto split: if_splits)

lemma size_nth: "i < length xs \<Longrightarrow> size (xs ! i) < Suc (size_list size xs)"
proof (induction xs arbitrary: i)
  case Nil
  then show ?case by simp
next
  case (Cons a xs)
  show ?case
  proof (cases i)
    case 0
    then show ?thesis by simp
  next
    case (Suc j)
    with Cons.prems have "j < length xs" by simp
    from Cons.IH[OF this] show ?thesis using Suc by simp
  qed
qed

lemma size_getProp_le: "size (getProp v k) \<le> size v"
proof (cases v)
  case (Arr xs)
  show ?thesis
  proof (cases "find (\<lambda>i. num_str i = k) [0..<length xs]")
    case None
    then show ?thesis using Arr by simp
  next
    case (Some i)
    then have "i < length xs" by (auto simp: find_Some_iff)
    from size_nth[OF this] show ?thesis using Arr Some by simp
  qed
next
  case (Obj kvs)
  show ?thesis
  proof (cases "map_of kvs (Key k)")
    case None
    then show ?thesis using Obj by simp
  next
    case (Some w)
    from size_map_of[OF this] show ?thesis using Obj Some by simp
  qed
next
  case (Str s)
  then show ?thesis by (simp split: option.splits)
qed simp_all

lemma Object_keys_Obj: "k \<in> set (Object_keys (Obj kvs)) \<longleftrightarrow> Key k \<in> fst ` set kvs"
  by (induction kvs) (auto split: pkey.splits)

lemma size_getProp_lt:
  assumes "k \<in> set (Object_keys (Obj kvs))"
  shows "size (getProp (Obj kvs) k) < size (Obj kvs)"
proof -
  from assms have "Key k \<in> fst ` set kvs" by (simp only: Object_keys_Obj)
  then obtain w where w: "map_of kvs (Key k) = Some w"
    by (cases "map_of kvs (Key k)") (auto simp: map_of_eq_None_iff)
  from size_map_of[OF w] show ?thesis using w by simp
qed

section \<open>Deep equality (utils: isDeepEqual)\<close>

text \<open>
  \<open>isDeepEqual(obj1, obj2, propsToIgnore)\<close>, branch by branch. \<open>obj1 !== obj1\<close> holds
  of \<open>NaN\<close> alone. The first test is \<open>===\<close>; for one and the same object the rest of the
  function answers true as well, so taking \<open>===\<close> false on objects loses nothing.
  The guard of the second branch lets a primitive through when the other side is an
  object; \<open>Object.keys\<close> of a number or boolean is empty and that of a string lists its
  indices, and the model keeps that.
\<close>

function isDeepEqual :: "jsval \<Rightarrow> jsval \<Rightarrow> string list \<Rightarrow> bool" where
  "isDeepEqual obj1 obj2 propsToIgnore =
    (if strict_eq obj1 obj2 then True
     else if nullish obj1 \<or> nullish obj2 \<or> (\<not> isObjectLike obj1 \<and> \<not> isObjectLike obj2)
       then obj1 = NaN \<and> obj2 = NaN
     else if isArray obj1 \<noteq> isArray obj2 then False
     else if isArray obj1 \<and> isArray obj2 then
       (if length (elems obj1) \<noteq> length (elems obj2) then False
        else list_all (\<lambda>i. isDeepEqual (elems obj1 ! i) (elems obj2 ! i) propsToIgnore)
               [0..<length (elems obj1)])
     else
       (let keys1 = filter (\<lambda>k. k \<notin> set propsToIgnore) (Object_keys obj1);
            keys2 = filter (\<lambda>k. k \<notin> set propsToIgnore) (Object_keys obj2)
        in if length keys1 \<noteq> length keys2 then False
           else if \<not> list_all (\<lambda>k. k \<in> set keys2) keys1 then False
           else list_all (\<lambda>key. isDeepEqual (getProp obj1 key) (getProp obj2 key) propsToIgnore)
                  keys1))"
  by pat_completeness auto
termination
proof (relation "measure (\<lambda>(a, b, ig). size a + size b)", goal_cases)
  case 1
  show ?case by simp
next
  case (2 obj1 obj2 ig i)
  from 2 obtain xs ys where o: "obj1 = Arr xs" "obj2 = Arr ys"
    by (cases obj1; cases obj2) auto
  with 2 have "i < length xs" "i < length ys" by auto
  from size_nth[OF this(1)] size_nth[OF this(2)] show ?case using o by simp
next
  case (3 obj1 obj2 ig keys1 keys2 key)
  then have k1: "key \<in> set (Object_keys obj1)" and k2: "key \<in> set (Object_keys obj2)"
    by (auto simp: list_all_iff)
  from 3 have na: "\<not> isArray obj1" "\<not> isArray obj2"
    and ol: "isObjectLike obj1 \<or> isObjectLike obj2"
    by auto
  from ol show ?case
  proof
    assume "isObjectLike obj1"
    with na obtain kvs where "obj1 = Obj kvs" by (cases obj1) auto
    with k1 size_getProp_lt[of key kvs] size_getProp_le[of obj2 key] show ?case by simp
  next
    assume "isObjectLike obj2"
    with na obtain kvs where "obj2 = Obj kvs" by (cases obj2) auto
    with k2 size_getProp_lt[of key kvs] size_getProp_le[of obj1 key] show ?case by simp
  qed
qed

declare isDeepEqual.simps [simp del]

section \<open>Schema algebra (typesystem)\<close>

subsection \<open>mergeObjectSchemas\<close>

text \<open>
  \<open>Array.prototype.includes\<close> compares with SameValueZero: \<open>===\<close>, and \<open>NaN\<close> equal to
  itself. \<open>Array.from(new Set(...))\<close> keeps the first occurrence of each value in
  insertion order.
\<close>

definition sameValueZero :: "jsval \<Rightarrow> jsval \<Rightarrow> bool" where
  "sameValueZero a b = (strict_eq a b \<or> (a = NaN \<and> b = NaN))"

definition Array_includes :: "jsval list \<Rightarrow> jsval \<Rightarrow> bool" where
  "Array_includes xs x = list_ex (\<lambda>y. sameValueZero y x) xs"

definition Set_add :: "jsval list \<Rightarrow> jsval \<Rightarrow> jsval list" where
  "Set_add s x = (if Array_includes s x then s else s @ [x])"

text \<open>
  The loop \<open>x.required?.forEach(...)\<close> with its body: \<open>y.required?.includes(x)\<close> is
  \<open>undefined\<close> when \<open>y.required\<close> is missing. The declared type of \<open>required\<close> is
  \<open>string[] | undefined\<close>. A string has no \<open>forEach\<close> but has \<open>includes\<close>, the
  search of the text of its argument; any other value is answered with the \<open>TypeError\<close>
  that a missing method raises.
\<close>

fun existsInBoth_loop :: "jsval list \<Rightarrow> jsval \<Rightarrow> jsval list \<Rightarrow> jsval list result" where
  "existsInBoth_loop [] yreq acc = Inr acc"
| "existsInBoth_loop (x # xs) yreq acc =
     (if nullish yreq then existsInBoth_loop xs yreq acc
      else case yreq of
        Arr ys \<Rightarrow> existsInBoth_loop xs yreq (if Array_includes ys x then Set_add acc x else acc)
      | Str s \<Rightarrow>
          existsInBoth_loop xs yreq (if includesText s (templateStr x) then Set_add acc x else acc)
      | _ \<Rightarrow> Inl TypeError)"

definition existsInBoth :: "jsval \<Rightarrow> jsval \<Rightarrow> jsval list result" where
  "existsInBoth x y =
     (let xreq = getProp x ''required''
      in if nullish xreq then Inr []
         else case xreq of
           Arr xs \<Rightarrow> existsInBoth_loop xs (getProp y ''required'') []
         | _ \<Rightarrow> Inl TypeError)"

text \<open>
  \<open>Type.Composite([x, y], options)\<close> is TypeBox's, not this repository's: it is the
  parameter \<open>Composite\<close>, which gives the property list of the \<open>TObject\<close> that TypeBox
  builds. \<open>mergeObjectSchemas\<close> then overwrites \<open>required\<close> on it.
\<close>

definition mergeObjectSchemas ::
  "(jsval \<Rightarrow> jsval \<Rightarrow> (pkey \<times> jsval) list) \<Rightarrow> jsval \<Rightarrow> jsval \<Rightarrow> jsval result" where
  "mergeObjectSchemas Composite x y =
     (if nullish x \<or> nullish y then Inl TypeError
      else case existsInBoth x y of
        Inl e \<Rightarrow> Inl e
      | Inr both \<Rightarrow> Inr (setProp ''required'' (Arr both) (Obj (Composite x y))))"

text \<open>The required-property set of a schema: the names listed under \<open>required\<close>.\<close>

definition requiredSet :: "jsval \<Rightarrow> jsval set" where
  "requiredSet s = set (elems (getProp s ''required''))"

definition requiredWellTyped :: "jsval \<Rightarrow> bool" where
  "requiredWellTyped s =
     (case s of
        Obj kvs \<Rightarrow>
          (case getProp s ''required'' of
             Undefined \<Rightarrow> True
           | Arr ks \<Rightarrow> list_all (\<lambda>k. case k of Str n \<Rightarrow> True | _ \<Rightarrow> False) ks
           | _ \<Rightarrow> False)
      | _ \<Rightarrow> False)"

subsection \<open>TypeBox: kinds, guards and builders\<close>

text \<open>
  TypeBox (\<open>Type\<close>, \<open>TypeGuard\<close>) is a library the repository calls. What the
  schema algebra uses of it is modelled here from the library (version 0.32, the one whose
  \<open>TypeGuard.IsIntersect\<close> and \<open>Type.Strict\<close> the source names). A schema is an object
  tagged under the symbol \<open>Kind\<close>; \<open>Type.Optional\<close> adds the symbol \<open>OptionalKind\<close>.
  A guard tests the tag, the \<open>type\<close> keyword, the annotations of the node and that
  the parts are schemas. For a part, \<open>IsSchema\<close> is taken to hold of an object tagged
  with a kind; the library asks in addition that a part of a kind it knows passes the guard
  of that kind. \<open>CloneType\<close> copies a value and is the identity on trees.
\<close>

definition Kind :: pkey where
  "Kind = Sym ''Kind''"

definition OptionalKind :: pkey where
  "OptionalKind = Sym ''OptionalKind''"

fun symProp :: "jsval \<Rightarrow> pkey \<Rightarrow> jsval" where
  "symProp (Obj kvs) k = (case map_of kvs k of Some v \<Rightarrow> v | None \<Rightarrow> Undefined)"
| "symProp _ k = Undefined"

definition IsKindOf :: "jsval \<Rightarrow> string \<Rightarrow> bool" where
  "IsKindOf v kind = (symProp v Kind = Str kind)"

definition IsSchema :: "jsval \<Rightarrow> bool" where
  "IsSchema v = (case symProp v Kind of Str k \<Rightarrow> True | _ \<Rightarrow> False)"

definition Object_entries :: "jsval \<Rightarrow> (string \<times> jsval) list" where
  "Object_entries v = map (\<lambda>k. (k, getProp v k)) (Object_keys v)"

text \<open>
  The tests of annotations: a value that is absent or of the given type. A pattern must
  also be a regular expression that \<open>RegExp\<close> accepts, which is not modelled: a string
  free of control characters is taken to be one.
\<close>

fun optionalString :: "jsval \<Rightarrow> bool" where
  "optionalString Undefined = True"
| "optionalString (Str s) = True"
| "optionalString _ = False"

fun optionalNumber :: "jsval \<Rightarrow> bool" where
  "optionalNumber Undefined = True"
| "optionalNumber (Num c) = True"
| "optionalNumber NaN = True"
| "optionalNumber _ = False"

fun optionalBoolean :: "jsval \<Rightarrow> bool" where
  "optionalBoolean Undefined = True"
| "optionalBoolean (Bool b) = True"
| "optionalBoolean _ = False"

definition optionalSchema :: "jsval \<Rightarrow> bool" where
  "optionalSchema v = (v = Undefined \<or> IsSchema v)"

definition controlCharacterFree :: "string \<Rightarrow> bool" where
  "controlCharacterFree s =
     list_all (\<lambda>c. let n = (of_char c :: nat) in \<not> ((7 \<le> n \<and> n \<le> 13) \<or> n = 27 \<or> n = 127)) s"

fun optionalFormat :: "jsval \<Rightarrow> bool" where
  "optionalFormat Undefined = True"
| "optionalFormat (Str s) = controlCharacterFree s"
| "optionalFormat _ = False"

definition IsTransform :: "jsval \<Rightarrow> bool" where
  "IsTransform v = (case v of Obj kvs \<Rightarrow> Sym ''TransformKind'' \<in> fst ` set kvs | _ \<Rightarrow> False)"

definition TypeGuard_IsString :: "jsval \<Rightarrow> bool" where
  "TypeGuard_IsString v =
     (IsKindOf v ''String'' \<and> getProp v ''type'' = Str ''string''
      \<and> optionalString (getProp v ''$id'')
      \<and> optionalNumber (getProp v ''minLength'') \<and> optionalNumber (getProp v ''maxLength'')
      \<and> optionalFormat (getProp v ''pattern'') \<and> optionalFormat (getProp v ''format''))"

definition TypeGuard_IsNumber :: "jsval \<Rightarrow> bool" where
  "TypeGuard_IsNumber v =
     (IsKindOf v ''Number'' \<and> getProp v ''type'' = Str ''number''
      \<and> optionalString (getProp v ''$id'')
      \<and> optionalNumber (getProp v ''exclusiveMaximum'')
      \<and> optionalNumber (getProp v ''exclusiveMinimum'')
      \<and> optionalNumber (getProp v ''maximum'') \<and> optionalNumber (getProp v ''minimum'')
      \<and> optionalNumber (getProp v ''multipleOf''))"

definition TypeGuard_IsBoolean :: "jsval \<Rightarrow> bool" where
  "TypeGuard_IsBoolean v =
     (IsKindOf v ''Boolean'' \<and> getProp v ''type'' = Str ''boolean''
      \<and> optionalString (getProp v ''$id''))"

definition TypeGuard_IsNull :: "jsval \<Rightarrow> bool" where
  "TypeGuard_IsNull v =
     (IsKindOf v ''Null'' \<and> getProp v ''type'' = Str ''null'' \<and> optionalString (getProp v ''$id''))"

definition TypeGuard_IsArray :: "jsval \<Rightarrow> bool" where
  "TypeGuard_IsArray v =
     (IsKindOf v ''Array'' \<and> getProp v ''type'' = Str ''array''
      \<and> optionalString (getProp v ''$id'')
      \<and> IsSchema (getProp v ''items'')
      \<and> optionalNumber (getProp v ''minItems'') \<and> optionalNumber (getProp v ''maxItems'')
      \<and> optionalBoolean (getProp v ''uniqueItems'')
      \<and> optionalSchema (getProp v ''contains'')
      \<and> optionalNumber (getProp v ''minContains'') \<and> optionalNumber (getProp v ''maxContains''))"

definition TypeGuard_IsObject :: "jsval \<Rightarrow> bool" where
  "TypeGuard_IsObject v =
     (IsKindOf v ''Object'' \<and> getProp v ''type'' = Str ''object''
      \<and> optionalString (getProp v ''$id'')
      \<and> isObjectLike (getProp v ''properties'')
      \<and> list_all (\<lambda>(k, p). controlCharacterFree k \<and> IsSchema p)
            (Object_entries (getProp v ''properties''))
      \<and> (optionalBoolean (getProp v ''additionalProperties'')
           \<or> IsSchema (getProp v ''additionalProperties''))
      \<and> optionalNumber (getProp v ''minProperties'')
      \<and> optionalNumber (getProp v ''maxProperties''))"

definition TypeGuard_IsIntersect :: "jsval \<Rightarrow> bool" where
  "TypeGuard_IsIntersect v =
     (IsKindOf v ''Intersect''
      \<and> (case getProp v ''type'' of Str t \<Rightarrow> t = ''object'' | Undefined \<Rightarrow> True | _ \<Rightarrow> False)
      \<and> (case getProp v ''allOf'' of
            Arr ms \<Rightarrow> list_all (\<lambda>m. IsSchema m \<and> \<not> IsTransform m) ms
          | _ \<Rightarrow> False)
      \<and> (optionalBoolean (getProp v ''unevaluatedProperties'')
           \<or> IsSchema (getProp v ''unevaluatedProperties''))
      \<and> optionalString (getProp v ''$id''))"

definition TypeGuard_IsUnion :: "jsval \<Rightarrow> bool" where
  "TypeGuard_IsUnion v =
     (IsKindOf v ''Union''
      \<and> optionalString (getProp v ''$id'')
      \<and> (case getProp v ''anyOf'' of Arr ms \<Rightarrow> list_all IsSchema ms | _ \<Rightarrow> False))"

definition TypeGuard_IsOptional :: "jsval \<Rightarrow> bool" where
  "TypeGuard_IsOptional v = (symProp v OptionalKind = Str ''Optional'')"

text \<open>The spread \<open>{...v}\<close>: the own enumerable properties of \<open>v\<close>, symbols included.\<close>

fun spread :: "jsval \<Rightarrow> (pkey \<times> jsval) list" where
  "spread (Obj kvs) = kvs"
| "spread v = map (\<lambda>(k, w). (Key k, w)) (Object_entries v)"

text \<open>
  \<open>CloneType(schema, options)\<close> is \<open>{...Clone(schema), ...options}\<close>: on a tree the
  copy of an object is the object, and the copy of \<open>undefined\<close> is \<open>{}\<close>. Every
  builder spreads its options first and then writes the tag and its keywords.
\<close>

definition CloneType :: "jsval \<Rightarrow> jsval \<Rightarrow> jsval" where
  "CloneType schema options =
     Obj (foldl (\<lambda>acc (k, v). putKey k v acc) (spread schema) (spread options))"

definition withOptions :: "jsval \<Rightarrow> string \<Rightarrow> (pkey \<times> jsval) list" where
  "withOptions options kind = putKey Kind (Str kind) (spread options)"

definition Type_String :: "jsval \<Rightarrow> jsval" where
  "Type_String options = Obj (putKey (Key ''type'') (Str ''string'') (withOptions options ''String''))"

definition Type_Number :: "jsval \<Rightarrow> jsval" where
  "Type_Number options = Obj (putKey (Key ''type'') (Str ''number'') (withOptions options ''Number''))"

definition Type_Boolean :: "jsval \<Rightarrow> jsval" where
  "Type_Boolean options =
     Obj (putKey (Key ''type'') (Str ''boolean'') (withOptions options ''Boolean''))"

definition Type_Null :: "jsval \<Rightarrow> jsval" where
  "Type_Null options = Obj (putKey (Key ''type'') (Str ''null'') (withOptions options ''Null''))"

definition Type_Never :: "jsval \<Rightarrow> jsval" where
  "Type_Never options = Obj (putKey (Key ''not'') (Obj []) (withOptions options ''Never''))"

definition Type_Unknown :: "jsval \<Rightarrow> jsval" where
  "Type_Unknown options = Obj (withOptions options ''Unknown'')"

fun typeof :: "jsval \<Rightarrow> string" where
  "typeof Undefined = ''undefined''"
| "typeof Null = ''object''"
| "typeof (Bool b) = ''boolean''"
| "typeof (Num n) = ''number''"
| "typeof NaN = ''number''"
| "typeof (Str s) = ''string''"
| "typeof (Arr xs) = ''object''"
| "typeof (Obj kvs) = ''object''"

definition Type_Literal :: "jsval \<Rightarrow> jsval \<Rightarrow> jsval" where
  "Type_Literal v options =
     Obj (putKey (Key ''type'') (Str (typeof v))
            (putKey (Key ''const'') v (withOptions options ''Literal'')))"

definition Type_Not :: "jsval \<Rightarrow> jsval \<Rightarrow> jsval" where
  "Type_Not schema options =
     Obj (putKey (Key ''not'') (CloneType schema Undefined) (withOptions options ''Not''))"

definition Type_Union :: "jsval list \<Rightarrow> jsval \<Rightarrow> jsval" where
  "Type_Union T options =
     (case T of
        [] \<Rightarrow> Type_Never options
      | [t] \<Rightarrow> CloneType t options
      | _ \<Rightarrow> Obj (putKey (Key ''anyOf'') (Arr (map (\<lambda>t. CloneType t Undefined) T))
                   (withOptions options ''Union'')))"

definition OneOf :: "jsval list \<Rightarrow> jsval \<Rightarrow> jsval" where
  "OneOf oneOf options =
     Obj (putKey (Key ''oneOf'') (Arr oneOf) (withOptions options ''ExtendedOneOf''))"

definition Type_Array :: "jsval \<Rightarrow> jsval \<Rightarrow> jsval" where
  "Type_Array items options =
     Obj (putKey (Key ''items'') (CloneType items Undefined)
            (putKey (Key ''type'') (Str ''array'') (withOptions options ''Array'')))"

text \<open>
  \<open>Type.Tuple\<close> writes \<open>minItems\<close> and \<open>maxItems\<close> after the options, both the
  number of items.
\<close>

definition Type_Tuple :: "jsval list \<Rightarrow> jsval \<Rightarrow> jsval" where
  "Type_Tuple items options =
     (let n = Num (real (length items));
          tagged = putKey (Key ''type'') (Str ''array'') (withOptions options ''Tuple'')
      in if length items > 0
         then Obj (putKey (Key ''maxItems'') n (putKey (Key ''minItems'') n
                (putKey (Key ''additionalItems'') (Bool False)
                   (putKey (Key ''items'') (Arr (map (\<lambda>t. CloneType t Undefined) items)) tagged))))
         else Obj (putKey (Key ''maxItems'') n (putKey (Key ''minItems'') n tagged)))"

definition Type_Optional :: "jsval \<Rightarrow> jsval" where
  "Type_Optional schema =
     Obj (putKey OptionalKind (Str ''Optional'')
            (filter (\<lambda>(k, w). k \<noteq> OptionalKind) (spread schema)))"

definition Type_Object :: "(pkey \<times> jsval) list \<Rightarrow> jsval \<Rightarrow> jsval" where
  "Type_Object properties options =
     (let propertyKeys = Object_keys (Obj properties);
          optionalKeys = filter (\<lambda>k. TypeGuard_IsOptional (getProp (Obj properties) k)) propertyKeys;
          requiredKeys = filter (\<lambda>k. k \<notin> set optionalKeys) propertyKeys;
          clonedProperties =
            foldl (\<lambda>acc k. putKey (Key k) (CloneType (getProp (Obj properties) k) Undefined) acc)
              [] propertyKeys;
          base = putKey (Key ''properties'') (Obj clonedProperties)
                   (putKey (Key ''type'') (Str ''object'') (withOptions options ''Object''))
      in if length requiredKeys > 0
         then Obj (putKey (Key ''required'') (Arr (map Str requiredKeys)) base)
         else Obj base)"

text \<open>
  \<open>Type.Intersect(T, options)\<close>: no member gives \<open>Never\<close>, one member gives its copy,
  a member carrying a transform is refused; else \<open>IntersectCreate\<close> spreads the options,
  then writes the tag, the \<open>type\<close> (when all members are objects or
  \<open>unevaluatedProperties\<close> is set) and \<open>allOf\<close>.
\<close>

definition IntersectCreate :: "jsval list \<Rightarrow> jsval \<Rightarrow> jsval" where
  "IntersectCreate T options =
     (let allObjects = list_all TypeGuard_IsObject T;
          unevaluated = getProp options ''unevaluatedProperties'';
          tagged = withOptions options ''Intersect'';
          members = Arr (map (\<lambda>t. CloneType t Undefined) T)
      in if unevaluated = Bool False \<or> IsSchema unevaluated \<or> allObjects
         then Obj (putKey (Key ''allOf'') members (putKey (Key ''type'') (Str ''object'') tagged))
         else Obj (putKey (Key ''allOf'') members tagged))"

definition Type_Intersect :: "jsval list \<Rightarrow> jsval \<Rightarrow> jsval result" where
  "Type_Intersect T options =
     (case T of
        [] \<Rightarrow> Inr (Type_Never options)
      | [t] \<Rightarrow> Inr (CloneType t options)
      | _ \<Rightarrow> if list_ex IsTransform T then Inl (Error ''Cannot intersect transform types'')
             else Inr (IntersectCreate T options))"

subsection \<open>flattenIntersections\<close>

text \<open>
  \<open>buildObjectOptions\<close> copies the eight listed options when they are truthy, and
  answers \<open>undefined\<close> when none is. The \<open>forEach\<close> over \<open>schema.allOf\<close> and the
  \<open>reduce\<close> over the entries of \<open>schema.properties\<close> are the two loops below; a
  \<open>throw\<close> in their body ends them with the error. In the \<open>forEach\<close> the source
  computes \<open>flattenedType\<close> and then compares and keeps \<open>v\<close>, the member as it came.
\<close>

definition buildObjectOptions :: "jsval \<Rightarrow> jsval" where
  "buildObjectOptions schema =
     (let options = foldl (\<lambda>acc k. if truthy (getProp schema k) then putKey (Key k) (getProp schema k) acc else acc) []
            [''$id'', ''additionalProperties'', ''default'', ''description'', ''examples'',
             ''minProperties'', ''maxProperties'', ''title'']
      in if length (Object_keys (Obj options)) > 0 then Obj options else Undefined)"

fun forEach_allOf :: "(jsval \<Rightarrow> jsval result) \<Rightarrow> jsval list \<Rightarrow> jsval list \<Rightarrow> jsval list result" where
  "forEach_allOf flattenMember [] deduplicatedSchemas = Inr deduplicatedSchemas"
| "forEach_allOf flattenMember (v # vs) deduplicatedSchemas =
     (case flattenMember v of
        Inl e \<Rightarrow> Inl e
      | Inr flattenedType \<Rightarrow>
          (let similarExists = list_ex (\<lambda>s. isDeepEqual s v [''example'']) deduplicatedSchemas
           in forEach_allOf flattenMember vs
                (if \<not> similarExists then deduplicatedSchemas @ [v] else deduplicatedSchemas)))"

lemma forEach_allOf_cong [fundef_cong]:
  "vs = vs' \<Longrightarrow> acc = acc' \<Longrightarrow> (\<And>v. v \<in> set vs' \<Longrightarrow> f v = g v)
   \<Longrightarrow> forEach_allOf f vs acc = forEach_allOf g vs' acc'"
  by (induction vs' arbitrary: vs acc acc') (auto split: sum.splits)

fun reduce_properties ::
  "(string \<Rightarrow> jsval \<Rightarrow> jsval result) \<Rightarrow> (string \<times> jsval) list \<Rightarrow> (pkey \<times> jsval) list
     \<Rightarrow> (pkey \<times> jsval) list result" where
  "reduce_properties step [] acc = Inr acc"
| "reduce_properties step ((key, propSchema) # rest) acc =
     (case step key propSchema of
        Inl e \<Rightarrow> Inl e
      | Inr v \<Rightarrow> reduce_properties step rest (putKey (Key key) v acc))"

lemma reduce_properties_cong [fundef_cong]:
  "es = es' \<Longrightarrow> acc = acc' \<Longrightarrow> (\<And>k p. (k, p) \<in> set es' \<Longrightarrow> f k p = g k p)
   \<Longrightarrow> reduce_properties f es acc = reduce_properties g es' acc'"
  by (induction es' arbitrary: es acc acc') (auto split: sum.splits)

definition typeName :: "jsval \<Rightarrow> string" where
  "typeName v = (case getProp v ''type'' of Str t \<Rightarrow> t | _ \<Rightarrow> ''undefined'')"

definition requiredIncludes :: "jsval \<Rightarrow> string \<Rightarrow> bool result" where
  "requiredIncludes schema key =
     (let req = getProp schema ''required''
      in if nullish req then Inr False
         else case req of
           Arr ks \<Rightarrow> Inr (Array_includes ks (Str key))
         | Str s \<Rightarrow> Inr (includesText s key)
         | _ \<Rightarrow> Inl TypeError)"

lemma size_elems: "v \<in> set (elems w) \<Longrightarrow> size v < size w"
  by (cases w) (auto simp: in_set_conv_nth dest: size_nth)

lemma size_getProp_defined:
  assumes "getProp v k \<noteq> Undefined" and "isObjectLike v"
  shows "size (getProp v k) < size v"
proof (cases v)
  case (Arr xs)
  with assms obtain i where i: "find (\<lambda>i. num_str i = k) [0..<length xs] = Some i"
    by (cases "find (\<lambda>i. num_str i = k) [0..<length xs]") auto
  then have "i < length xs" by (auto simp: find_Some_iff)
  from size_nth[OF this] show ?thesis using Arr i by simp
next
  case (Obj kvs)
  with assms obtain w where w: "map_of kvs (Key k) = Some w"
    by (cases "map_of kvs (Key k)") auto
  from size_map_of[OF w] show ?thesis using Obj w by simp
qed (use assms in simp_all)

lemma IsKindOf_Obj: "IsKindOf v kind \<Longrightarrow> \<exists>kvs. v = Obj kvs"
  by (cases v) (auto simp: IsKindOf_def)

lemma IsSchema_defined: "IsSchema v \<Longrightarrow> v \<noteq> Undefined"
  by (auto simp: IsSchema_def)

lemma size_entries:
  assumes "(k, p) \<in> set (Object_entries w)" and "isObjectLike w"
  shows "size p < size w"
proof -
  from assms(1) have k: "k \<in> set (Object_keys w)" and p: "p = getProp w k"
    by (auto simp: Object_entries_def)
  show ?thesis
  proof (cases w)
    case (Obj kvs)
    with k p size_getProp_lt[of k kvs] show ?thesis by simp
  next
    case (Arr xs)
    from k Arr obtain i where i: "i < length xs" "k = num_str i" by auto
    then have "find (\<lambda>j. num_str j = k) [0..<length xs] \<noteq> None"
      by (auto simp: find_None_iff)
    then obtain j where j: "find (\<lambda>j. num_str j = k) [0..<length xs] = Some j" by auto
    then have "j < length xs" by (auto simp: find_Some_iff)
    from size_nth[OF this] show ?thesis using Arr p j by simp
  qed (use assms(2) in simp_all)
qed

function flattenIntersections :: "jsval \<Rightarrow> jsval result" where
  "flattenIntersections schema =
    (if TypeGuard_IsIntersect schema then
       (case forEach_allOf
               (\<lambda>v. if TypeGuard_IsArray v \<or> TypeGuard_IsObject v then flattenIntersections v
                    else if TypeGuard_IsString v \<or> TypeGuard_IsBoolean v
                            \<or> TypeGuard_IsNumber v \<or> TypeGuard_IsNull v then Inr v
                    else Inl (Error (''Type '' @ typeName v
                                      @ '' Not yet supported by flattening operation'')))
               (elems (getProp schema ''allOf'')) [] of
          Inl e \<Rightarrow> Inl e
        | Inr deduplicatedSchemas \<Rightarrow>
            (if length deduplicatedSchemas > 1
             then Type_Intersect deduplicatedSchemas schema
             else case deduplicatedSchemas of [] \<Rightarrow> Inr Undefined | s # _ \<Rightarrow> Inr s))
     else if TypeGuard_IsArray schema then
       (case flattenIntersections (getProp schema ''items'') of
          Inl e \<Rightarrow> Inl e
        | Inr children \<Rightarrow> Inr (Type_Array children Undefined))
     else if TypeGuard_IsObject schema then
       (if getProp schema ''properties'' \<noteq> Undefined then
          (case reduce_properties
                  (\<lambda>key propSchema.
                     case requiredIncludes schema key of
                       Inl e \<Rightarrow> Inl e
                     | Inr isRequired \<Rightarrow>
                         (let needsOptional = (\<not> isRequired \<and> \<not> TypeGuard_IsOptional propSchema)
                          in case flattenIntersections propSchema of
                               Inl e \<Rightarrow> Inl e
                             | Inr flattenedSchema \<Rightarrow>
                                 Inr (if needsOptional then Type_Optional flattenedSchema
                                      else flattenedSchema)))
                  (Object_entries (getProp schema ''properties'')) [] of
             Inl e \<Rightarrow> Inl e
           | Inr flattened \<Rightarrow> Inr (Type_Object flattened (buildObjectOptions schema)))
        else Inr (Type_Object [] Undefined))
     else Inr schema)"
  by pat_completeness auto
termination
proof (relation "measure size", goal_cases)
  case 1
  show ?case by simp
next
  case (2 schema v)
  from size_elems[OF 2(2)] size_getProp_le[of schema "''allOf''"] show ?case by simp
next
  case (3 schema)
  then have a: "TypeGuard_IsArray schema" by simp
  then obtain kvs where "schema = Obj kvs"
    using IsKindOf_Obj by (auto simp: TypeGuard_IsArray_def)
  moreover from a have "getProp schema ''items'' \<noteq> Undefined"
    by (auto simp: TypeGuard_IsArray_def dest: IsSchema_defined)
  ultimately show ?case using size_getProp_defined[of schema "''items''"] by simp
next
  case (4 schema key propSchema isRequired needsOptional)
  from 4(3) have "isObjectLike (getProp schema ''properties'')"
    by (auto simp: TypeGuard_IsObject_def split: jsval.splits)
  from size_entries[OF 4(5) this] size_getProp_le[of schema "''properties''"]
  show ?case by simp
qed

declare flattenIntersections.simps [simp del]


subsection \<open>jsonSchemaToTypebox\<close>

fun mapResult :: "('a \<Rightarrow> 'b result) \<Rightarrow> 'a list \<Rightarrow> 'b list result" where
  "mapResult f [] = Inr []"
| "mapResult f (x # xs) =
     (case f x of
        Inl e \<Rightarrow> Inl e
      | Inr y \<Rightarrow> (case mapResult f xs of Inl e \<Rightarrow> Inl e | Inr ys \<Rightarrow> Inr (y # ys)))"

lemma mapResult_cong [fundef_cong]:
  "xs = ys \<Longrightarrow> (\<And>x. x \<in> set ys \<Longrightarrow> f x = g x) \<Longrightarrow> mapResult f xs = mapResult g ys"
  by (induction ys arbitrary: xs) (auto split: sum.splits)

definition parseSchemaOptions :: "jsval \<Rightarrow> jsval" where
  "parseSchemaOptions schema =
     (let properties = filter (\<lambda>(key, v). key \<notin> set [''title'', ''type'', ''items'', ''allOf'',
                           ''anyOf'', ''oneOf'', ''not'', ''properties'', ''required'', ''const'', ''enum''])
                         (Object_entries schema)
      in if length properties = 0 then Undefined
         else Obj (foldl (\<lambda>acc (key, v). putKey (Key key) v acc) [] properties))"

definition parsePrimitive :: "jsval \<Rightarrow> jsval \<Rightarrow> jsval result" where
  "parsePrimitive type schema =
     (let schemaOptions = parseSchemaOptions schema
      in if type = Str ''number'' \<or> type = Str ''integer'' then Inr (Type_Number schemaOptions)
         else if type = Str ''string'' then Inr (Type_String schemaOptions)
         else if type = Str ''boolean'' then Inr (Type_Boolean schemaOptions)
         else if type = Str ''null'' then Inr (Type_Null schemaOptions)
         else Inl (Error (''Should never happen..? parseType got type: '' @ templateStr type)))"

text \<open>
  \<open>parseType\<close> turns a JSON value (a member of \<open>enum\<close> or \<open>const\<close>) into a literal
  type. An empty array reaches \<open>Object.entries(undefined)\<close>, which throws.
\<close>

function parseType :: "jsval \<Rightarrow> jsval result" where
  "parseType type =
     (case type of
        Str s \<Rightarrow> Inr (Type_Literal type Undefined)
      | Null \<Rightarrow> Inr (Type_Null Undefined)
      | Num n \<Rightarrow> Inr (Type_Literal type Undefined)
      | NaN \<Rightarrow> Inr (Type_Literal type Undefined)
      | Bool b \<Rightarrow> Inr (Type_Literal type Undefined)
      | Arr xs \<Rightarrow>
          (case xs of
             [] \<Rightarrow> Inl TypeError
           | first # rest \<Rightarrow>
               (case parseType first of
                  Inl e \<Rightarrow> Inl e
                | Inr t \<Rightarrow> Inr (Type_Array t Undefined)))
      | Obj kvs \<Rightarrow>
          (case reduce_properties (\<lambda>key v. parseType v) (Object_entries type) [] of
             Inl e \<Rightarrow> Inl e
           | Inr childSchema \<Rightarrow> Inr (Type_Object childSchema Undefined))
      | Undefined \<Rightarrow> Inl TypeError)"
  by pat_completeness auto
termination
proof (relation "measure size", goal_cases)
  case 1
  show ?case by simp
next
  case (2 type xs first rest)
  then show ?case by simp
next
  case (3 type kvs key v)
  from size_entries[OF 3(2)] 3(1) show ?case by simp
qed

declare parseType.simps [simp del]

text \<open>
  \<open>jsonSchemaToTypebox\<close>: the shape tests in the order of the source, each parser
  inlined in its branch. A boolean schema gives \<open>Type.Boolean()\<close>; \<open>undefined\<close>
  and \<open>null\<close> throw at the first property read; a number, string or array has none of
  the keywords (they are not indices) and ends in the last \<open>throw\<close>. The message of
  that error is kept without the rendering of the schema.
\<close>

definition unsupportedSchema :: error where
  "unsupportedSchema = Error ''Unsupported schema. Did not match any type of the parsers.''"

lemma size_entries_le: "(k, p) \<in> set (Object_entries w) \<Longrightarrow> size p \<le> size w"
  by (auto simp: Object_entries_def size_getProp_le)

lemma size_member:
  assumes "getProp schema k = Arr members" and "x \<in> set members"
  shows "size x < size schema"
proof -
  from assms(2) have "size x < size (Arr members)" using size_elems[of x "Arr members"] by simp
  with size_getProp_le[of schema k] assms(1) show ?thesis by simp
qed

function jsonSchemaToTypebox :: "jsval \<Rightarrow> jsval result" where
  "jsonSchemaToTypebox schema =
     (case schema of
        Bool b \<Rightarrow> Inr (Type_Boolean Undefined)
      | Undefined \<Rightarrow> Inl TypeError
      | Null \<Rightarrow> Inl TypeError
      | Obj kvs \<Rightarrow>
          (let schemaOptions = parseSchemaOptions schema in
           if getProp schema ''type'' = Str ''object'' then
             \<comment> \<open>parseObject\<close>
             (if getProp schema ''properties'' = Undefined then Inr (Type_Unknown Undefined)
              else if getProp schema ''properties'' = Null then Inl TypeError
              else
                (case reduce_properties
                        (\<lambda>propertyName sub.
                           case requiredIncludes schema propertyName of
                             Inl e \<Rightarrow> Inl e
                           | Inr isRequired \<Rightarrow>
                               (case jsonSchemaToTypebox sub of
                                  Inl e \<Rightarrow> Inl e
                                | Inr t \<Rightarrow> Inr (if isRequired then t else Type_Optional t)))
                        (Object_entries (getProp schema ''properties'')) [] of
                   Inl e \<Rightarrow> Inl e
                 | Inr objectProperties \<Rightarrow>
                     Inr (if schemaOptions = Undefined
                          then Type_Object objectProperties
                                 (Obj [(Key ''additionalProperties'', Bool False)])
                          else Type_Object objectProperties schemaOptions)))
           else if getProp schema ''enum'' \<noteq> Undefined then
             \<comment> \<open>parseEnum\<close>
             (case getProp schema ''enum'' of
                Arr members \<Rightarrow>
                  (case mapResult parseType members of
                     Inl e \<Rightarrow> Inl e
                   | Inr primitiveTypes \<Rightarrow> Inr (Type_Union primitiveTypes schemaOptions))
              | _ \<Rightarrow> Inl TypeError)
           else if getProp schema ''anyOf'' \<noteq> Undefined then
             \<comment> \<open>parseAnyOf\<close>
             (case getProp schema ''anyOf'' of
                Arr members \<Rightarrow>
                  (case mapResult jsonSchemaToTypebox members of
                     Inl e \<Rightarrow> Inl e
                   | Inr childSchemas \<Rightarrow> Inr (Type_Union childSchemas schemaOptions))
              | _ \<Rightarrow> Inl TypeError)
           else if getProp schema ''allOf'' \<noteq> Undefined then
             \<comment> \<open>parseAllOf\<close>
             (case getProp schema ''allOf'' of
                Arr members \<Rightarrow>
                  (case mapResult jsonSchemaToTypebox members of
                     Inl e \<Rightarrow> Inl e
                   | Inr childSchema \<Rightarrow> Type_Intersect childSchema schemaOptions)
              | _ \<Rightarrow> Inl TypeError)
           else if getProp schema ''oneOf'' \<noteq> Undefined then
             \<comment> \<open>parseOneOf\<close>
             (case getProp schema ''oneOf'' of
                Arr members \<Rightarrow>
                  (case mapResult jsonSchemaToTypebox members of
                     Inl e \<Rightarrow> Inl e
                   | Inr childSchema \<Rightarrow> Inr (OneOf childSchema schemaOptions))
              | _ \<Rightarrow> Inl TypeError)
           else if getProp schema ''not'' \<noteq> Undefined then
             \<comment> \<open>parseNot\<close>
             (case jsonSchemaToTypebox (getProp schema ''not'') of
                Inl e \<Rightarrow> Inl e
              | Inr childSchema \<Rightarrow> Inr (Type_Not childSchema schemaOptions))
           else if getProp schema ''type'' = Str ''array'' \<and> getProp schema ''items'' \<noteq> Undefined then
             \<comment> \<open>parseArray\<close>
             (if isArray (getProp schema ''items'') then
                (case mapResult jsonSchemaToTypebox (elems (getProp schema ''items'')) of
                   Inl e \<Rightarrow> Inl e
                 | Inr childSchema \<Rightarrow>
                     Inr (Type_Array (Type_Union childSchema Undefined) schemaOptions))
              else
                (case jsonSchemaToTypebox (getProp schema ''items'') of
                   Inl e \<Rightarrow> Inl e
                 | Inr t \<Rightarrow> Inr (Type_Array t schemaOptions)))
           else if isArray (getProp schema ''type'') then
             \<comment> \<open>parseWithMultipleTypes\<close>
             (case mapResult (\<lambda>typeName. parsePrimitive typeName (Obj []))
                     (elems (getProp schema ''type'')) of
                Inl e \<Rightarrow> Inl e
              | Inr children \<Rightarrow> Inr (Type_Union children Undefined))
           else if getProp schema ''const'' \<noteq> Undefined then
             \<comment> \<open>parseConst\<close>
             (case getProp schema ''const'' of
                Arr members \<Rightarrow>
                  (case mapResult parseType members of
                     Inl e \<Rightarrow> Inl e
                   | Inr childSchema \<Rightarrow> Inr (Type_Union childSchema schemaOptions))
              | Obj fs \<Rightarrow> Inl (Error ''Const object not yet supported'')
              | Null \<Rightarrow> Inl (Error ''Const object not yet supported'')
              | literal \<Rightarrow> Inr (Type_Literal literal schemaOptions))
           else if getProp schema ''type'' \<noteq> Undefined \<and> \<not> isArray (getProp schema ''type'') then
             parsePrimitive (getProp schema ''type'') schema
           else Inl unsupportedSchema)
      | other \<Rightarrow> Inl unsupportedSchema)"
  by pat_completeness auto
termination
proof (relation "measure size", goal_cases)
  case 1
  show ?case by simp
next
  case (2 schema kvs opts propertyName sub isRequired)
  from 2(1,4) have "size (getProp schema ''properties'') < size schema"
    by (intro size_getProp_defined) simp_all
  with size_entries_le[OF 2(6)] show ?case by simp
next
  case (3 schema kvs opts members x)
  from size_member[OF 3(6,7)] show ?case by simp
next
  case (4 schema kvs opts members x)
  from size_member[OF 4(7,8)] show ?case by simp
next
  case (5 schema kvs opts members x)
  from size_member[OF 5(8,9)] show ?case by simp
next
  case (6 schema kvs opts)
  from 6(1,8) show ?case by (intro in_measure[THEN iffD2] size_getProp_defined) simp_all
next
  case (7 schema kvs opts x)
  from 7(10) obtain members where "getProp schema ''items'' = Arr members"
    by (cases "getProp schema ''items''") auto
  with 7(11) size_member[of schema "''items''" members x] show ?case by simp
next
  case (8 schema kvs opts)
  from 8(1,9) show ?case by (intro in_measure[THEN iffD2] size_getProp_defined) simp_all
qed

declare jsonSchemaToTypebox.simps [simp del]

section \<open>Reference store\<close>

subsection \<open>Type.Strict and the OpenApiBuilder\<close>

text \<open>
  \<open>Type.Strict(schema)\<close> is \<open>JSON.parse(JSON.stringify(schema))\<close>: symbol keys and
  properties whose value is \<open>undefined\<close> are left out, \<open>undefined\<close> in an array and
  \<open>NaN\<close> become \<open>null\<close>.
\<close>

fun Type_Strict :: "jsval \<Rightarrow> jsval"
  and strict_fields :: "(pkey \<times> jsval) list \<Rightarrow> (pkey \<times> jsval) list"
  and strict_elems :: "jsval list \<Rightarrow> jsval list" where
  "Type_Strict (Obj kvs) = Obj (strict_fields kvs)"
| "Type_Strict (Arr xs) = Arr (strict_elems xs)"
| "Type_Strict NaN = Null"
| "Type_Strict v = v"
| "strict_fields [] = []"
| "strict_fields ((k, v) # kvs) =
     (case k of
        Sym _ \<Rightarrow> strict_fields kvs
      | Key s \<Rightarrow> if v = Undefined then strict_fields kvs
                 else (Key s, Type_Strict v) # strict_fields kvs)"
| "strict_elems [] = []"
| "strict_elems (x # xs) = (if x = Undefined then Null else Type_Strict x) # strict_elems xs"

text \<open>\<open>a || {}\<close>\<close>

definition orEmpty :: "jsval \<Rightarrow> jsval" where
  "orEmpty v = (if truthy v then v else Obj [])"

text \<open>
  The builder of openapi3-ts: \<open>addSchema\<close> and \<open>addParameter\<close> create
  \<open>components\<close> and the section when missing and store the entry under its name.
\<close>

definition addComponent :: "string \<Rightarrow> string \<Rightarrow> jsval \<Rightarrow> jsval \<Rightarrow> jsval" where
  "addComponent section name entry rootDoc =
     (let components = orEmpty (getProp rootDoc ''components'');
          entries = orEmpty (getProp components section)
      in setProp ''components'' (setProp section (setProp name entry entries) components) rootDoc)"

definition addSchema :: "string \<Rightarrow> jsval \<Rightarrow> jsval \<Rightarrow> jsval" where
  "addSchema name schema rootDoc = addComponent ''schemas'' name schema rootDoc"

definition addParameter :: "string \<Rightarrow> jsval \<Rightarrow> jsval \<Rightarrow> jsval" where
  "addParameter name parameter rootDoc = addComponent ''parameters'' name parameter rootDoc"

subsection \<open>addBodyTypeToSchema\<close>

text \<open>
  \<open>schema.open_api_ref?.[k]\<close>: \<open>undefined\<close> when the reference map is missing.
  Reading a property of \<open>undefined\<close> or \<open>null\<close> throws.
\<close>

definition refOf :: "jsval \<Rightarrow> string \<Rightarrow> jsval" where
  "refOf schema k =
     (let m = getProp schema ''open_api_ref'' in if nullish m then Undefined else getProp m k)"

definition writeRef :: "string \<Rightarrow> string \<Rightarrow> jsval \<Rightarrow> jsval" where
  "writeRef k ref schema =
     (let withMap = (if \<not> truthy (getProp schema ''open_api_ref'')
                     then setProp ''open_api_ref'' (Obj []) schema else schema)
      in setProp ''open_api_ref'' (setProp k (Str ref) (getProp withMap ''open_api_ref'')) withMap)"

text \<open>
  The result is the returned reference, the schema node as the call leaves it and the
  document as the call leaves it.
\<close>

definition addBodyTypeToSchema :: "string \<Rightarrow> jsval \<Rightarrow> jsval \<Rightarrow> (jsval \<times> jsval \<times> jsval) result" where
  "addBodyTypeToSchema name schema rootDoc =
     (if nullish schema then Inl TypeError
      else if refOf schema ''body'' \<noteq> Undefined then Inr (refOf schema ''body'', schema, rootDoc)
      else
        (let rootDoc' = addSchema name (Type_Strict schema) rootDoc;
             schema' = writeRef ''body'' (''#/components/schema/'' @ name) schema
         in Inr (Str (''#/components/schemas/'' @ name), schema', rootDoc')))"

subsection \<open>addParameterToSchema\<close>

datatype probe = Reuse string | Fresh string | Exhausted

function probeName :: "jsval \<Rightarrow> jsval \<Rightarrow> string \<Rightarrow> nat \<Rightarrow> string \<Rightarrow> probe" where
  "probeName parameter parameters base i curName =
     (if i < 2000 then
        (if truthy (getProp parameters curName) then
           (if isDeepEqual parameter (getProp parameters curName) [''open_api_ref'']
            then Reuse curName
            else probeName parameter parameters base (Suc i) (base @ num_str i))
         else Fresh curName)
      else Exhausted)"
  by pat_completeness auto
termination
  by (relation "measure (\<lambda>(p, ps, b, i, c). 2000 - i)") auto

declare probeName.simps [simp del]

definition parameterCopy :: "jsval \<Rightarrow> jsval \<Rightarrow> jsval" where
  "parameterCopy parameter schema =
     (let parameter' = setProp ''schema'' (Type_Strict schema) parameter;
          copy = Obj (putKey (Key ''schema'') (Obj (spread (Type_Strict schema))) (spread parameter'))
      in setProp ''schema'' (deleteProp ''open_api_ref'' (getProp copy ''schema'')) copy)"

definition addParameterToSchema :: "jsval \<Rightarrow> jsval \<Rightarrow> jsval \<Rightarrow> (jsval \<times> jsval \<times> jsval) result" where
  "addParameterToSchema parameter schema rootDoc =
     (if nullish schema \<or> nullish parameter then Inl TypeError
      else
        let location = templateStr (getProp parameter ''in'')
        in if refOf schema location \<noteq> Undefined then Inr (refOf schema location, schema, rootDoc)
        else if nullish (getProp rootDoc ''components'') then Inl TypeError
        else
          (let parameters0 = getProp (getProp rootDoc ''components'') ''parameters'';
               rootDoc1 = (if parameters0 = Undefined
                           then setProp ''components''
                                  (setProp ''parameters'' (Obj []) (getProp rootDoc ''components''))
                                  rootDoc
                           else rootDoc);
               parameters = (if parameters0 = Undefined then Obj [] else parameters0);
               base = templateStr (getProp parameter ''name'') @ ''_'' @ location
           in if parameters = Null then Inl TypeError
              else case probeName parameter parameters base 0 base of
                Reuse curName \<Rightarrow> Inr (Str (''#/components/parameters/'' @ curName), schema, rootDoc1)
              | Exhausted \<Rightarrow>
                  Inl (Error ''Should never happen. 2000 Parameters with same name and no duplicate registered?'')
              | Fresh name \<Rightarrow>
                  (let rootDoc2 = addParameter name (parameterCopy parameter schema) rootDoc1;
                       schema' = writeRef location (''#/components/parameters/'' @ name) schema
                   in Inr (Str (''#/components/parameters/'' @ name), schema', rootDoc2))))"

section \<open>Sampler (snoopOnResponseHandler)\<close>

subsection \<open>Strings\<close>

definition toUpperChar :: "char \<Rightarrow> char" where
  "toUpperChar c =
     (let n = (of_char c :: nat) in if 97 \<le> n \<and> n \<le> 122 then char_of (n - 32) else c)"

definition toLowerChar :: "char \<Rightarrow> char" where
  "toLowerChar c =
     (let n = (of_char c :: nat) in if 65 \<le> n \<and> n \<le> 90 then char_of (n + 32) else c)"

definition toLowerCase :: "string \<Rightarrow> string" where
  "toLowerCase s = map toLowerChar s"

text \<open>\<open>path.charAt(1).toUpperCase() + path.substring(2)\<close>\<close>

definition capitalizeRoute :: "string \<Rightarrow> string" where
  "capitalizeRoute path = map toUpperChar (take 1 (drop 1 path)) @ drop 2 path"

text \<open>\<open>s.indexOf(';')\<close> and the cut of the charset.\<close>

fun indexOf :: "string \<Rightarrow> char \<Rightarrow> nat option" where
  "indexOf [] c = None"
| "indexOf (x # xs) c = (if x = c then Some 0 else map_option Suc (indexOf xs c))"

definition normalizeContentType :: "string option \<Rightarrow> string" where
  "normalizeContentType header =
     (case header of
        None \<Rightarrow> ''text/html''
      | Some contentType \<Rightarrow>
          (case indexOf contentType (CHR '';'') of
             Some charsetSeparator \<Rightarrow>
               if charsetSeparator > 0 then take charsetSeparator contentType else contentType
           | None \<Rightarrow> contentType))"

definition prettyNameOf :: "string \<Rightarrow> string \<Rightarrow> string \<Rightarrow> nat \<Rightarrow> string" where
  "prettyNameOf path method contentType statusCode =
     map (\<lambda>c. if c = CHR ''/'' then CHR ''_'' else c)
       (capitalizeRoute path @ ''Response_'' @ method @ ''_'' @ contentType @ ''_'' @ num_str statusCode)"


subsection \<open>Inference (typeboxUtils)\<close>

text \<open>
  \<open>haveSameType\<close>: every element has the \<open>type\<close> of the first.
\<close>

definition haveSameType :: "jsval list \<Rightarrow> bool" where
  "haveSameType value =
     (case value of [] \<Rightarrow> True
      | v # vs \<Rightarrow> list_all (\<lambda>w. strict_eq (getProp v ''type'') (getProp w ''type'')) vs)"

fun reviver :: "jsval \<Rightarrow> jsval"
  and revive_fields :: "(pkey \<times> jsval) list \<Rightarrow> (pkey \<times> jsval) list"
  and revive_elems :: "jsval list \<Rightarrow> jsval list" where
  "reviver Null = Type_Null (Obj [])"
| "reviver (Bool b) = Type_Boolean (Obj [(Key ''example'', Bool b)])"
| "reviver (Num n) = Type_Number (Obj [(Key ''example'', Num n)])"
| "reviver NaN = Type_Number (Obj [(Key ''example'', NaN)])"
| "reviver (Str s) = Type_String (Obj [(Key ''example'', Str s)])"
| "reviver (Arr xs) =
     (let value = revive_elems xs
      in if haveSameType value
         then Type_Array (case value of [] \<Rightarrow> Undefined | v # _ \<Rightarrow> v) Undefined
         else Type_Tuple value (Obj [(Key ''minItems'', Num 0), (Key ''maxItems'', Num 1000)]))"
| "reviver (Obj kvs) =
     Type_Object (revive_fields kvs) (Obj [(Key ''additionalProperties'', Bool False)])"
| "reviver Undefined = Undefined"
| "revive_fields [] = []"
| "revive_fields ((k, v) # kvs) = (k, reviver v) # revive_fields kvs"
| "revive_elems [] = []"
| "revive_elems (x # xs) = reviver x # revive_elems xs"

text \<open>
  \<open>jsonStringToTypeboxSchema(text)\<close> is \<open>JSON.parse(text, reviver)\<close>: the parsed value
  is rebuilt from the leaves up. It is given the parse of the text, \<open>None\<close> when
  \<open>JSON.parse\<close> throws.
\<close>

definition jsonStringToTypeboxSchema :: "jsval option \<Rightarrow> jsval result" where
  "jsonStringToTypeboxSchema parsed =
     (case parsed of None \<Rightarrow> Inl SyntaxError | Some v \<Rightarrow> Inr (reviver v))"

definition textStringToTypeboxSchema :: "string \<Rightarrow> jsval" where
  "textStringToTypeboxSchema text = Type_String (Obj [(Key ''example'', Str text)])"


subsection \<open>Options and the observed response\<close>

datatype sampling_mode = Combine | Individual

datatype limit = Finite real | Infinity

record SampleResponseOptions =
  samplingMode :: sampling_mode
  samplingInterval :: "real option"
  samplingMaxCount :: "limit option"

text \<open>
  What the handler reads of the context once the downstream handler has run: the route
  path and method of the request; the \<open>content-type\<close> header, the status and the body
  of the response (\<open>None\<close> for a \<open>null\<close> body, else its text) with the outcome of
  \<open>JSON.parse\<close> on that text (\<open>None\<close> when it throws); and the value that
  \<open>Math.random()\<close> draws.
\<close>

record Observation =
  routePath :: string
  reqMethod :: string
  contentTypeHeader :: "string option"
  status :: nat
  body :: "string option"
  bodyJson :: "jsval option"
  random :: real

text \<open>\<open>v?.[k]\<close>\<close>

definition optProp :: "jsval \<Rightarrow> string \<Rightarrow> jsval" where
  "optProp v k = (if nullish v then Undefined else getProp v k)"

text \<open>
  Assignment to a place inside the document, \<open>d[k1][k2]...[kn] = v\<close>, where the source
  has reached the object that holds the place by reading \<open>d[k1]...\<close> before.
\<close>

fun setPath :: "string list \<Rightarrow> jsval \<Rightarrow> jsval \<Rightarrow> jsval" where
  "setPath [] v d = v"
| "setPath (k # ks) v d = setProp k (setPath ks v (getProp d k)) d"

subsection \<open>The sampling gate\<close>

definition sampleInterval ::
  "SampleResponseOptions option \<Rightarrow> SampleResponseOptions option \<Rightarrow> real" where
  "sampleInterval handlerSampleOptions gSampleOptions =
     (case Option.bind handlerSampleOptions samplingInterval of
        Some i \<Rightarrow> i
      | None \<Rightarrow> (case Option.bind gSampleOptions samplingInterval of Some i \<Rightarrow> i | None \<Rightarrow> 1))"

definition maxResponsesToSample ::
  "SampleResponseOptions option \<Rightarrow> SampleResponseOptions option \<Rightarrow> limit" where
  "maxResponsesToSample handlerSampleOptions gSampleOptions =
     (case Option.bind handlerSampleOptions samplingMaxCount of
        Some m \<Rightarrow> m
      | None \<Rightarrow> (case Option.bind gSampleOptions samplingMaxCount of
                   Some m \<Rightarrow> m | None \<Rightarrow> Infinity))"

definition samplingMethod ::
  "SampleResponseOptions option \<Rightarrow> SampleResponseOptions option \<Rightarrow> sampling_mode" where
  "samplingMethod handlerSampleOptions gSampleOptions =
     (case handlerSampleOptions of
        Some h \<Rightarrow> samplingMode h
      | None \<Rightarrow> (case gSampleOptions of Some g \<Rightarrow> samplingMode g | None \<Rightarrow> Individual))"

text \<open>
  The recorded count, \<open>null\<close> when any link of the optional chain is missing.
\<close>

definition sampledCount :: "jsval \<Rightarrow> string \<Rightarrow> string \<Rightarrow> nat \<Rightarrow> string \<Rightarrow> jsval" where
  "sampledCount rootDoc path method statusCode contentType =
     (let pathObject = optProp (getProp rootDoc ''paths'') path;
          count = foldl optProp pathObject
                    [method, ''responses'', num_str statusCode, ''content'', contentType,
                     ''schema'', ''x-openapi-sample-count'']
      in if nullish count then Null else count)"

text \<open>
  \<open>sampledCount >= maxResponsesToSample\<close>: both sides as numbers, false when the count
  gives \<open>NaN\<close>.
\<close>

fun geq :: "numeric \<Rightarrow> limit \<Rightarrow> bool" where
  "geq (Number c) (Finite m) = (c \<ge> m)"
| "geq PlusInfinity m = True"
| "geq c m = False"

definition countReached :: "jsval \<Rightarrow> limit \<Rightarrow> bool" where
  "countReached count maxCount = geq (ToNumber count) maxCount"

definition bail :: "jsval \<Rightarrow> limit \<Rightarrow> real \<Rightarrow> real \<Rightarrow> bool" where
  "bail count maxCount interval drawn =
     (count \<noteq> Null \<and> (countReached count maxCount \<or> drawn > interval))"

subsection \<open>After the gate\<close>

text \<open>
  The result of the handler is the document as it leaves it and the error it throws, if
  any. The handler has no \<open>try\<close>: an error thrown by a callee is thrown by the handler.
\<close>

type_synonym outcome = "jsval \<times> error option"

definition inferResponse ::
  "string \<Rightarrow> string option \<Rightarrow> jsval option \<Rightarrow> (jsval \<times> jsval) result" where
  "inferResponse contentType response parsed =
     (case response of
        None \<Rightarrow> Inr (Undefined, Str [])
      | Some responseData \<Rightarrow>
          if contentType = ''application/json'' then
            (case jsonStringToTypeboxSchema parsed of
               Inl e \<Rightarrow> Inl e
             | Inr inferredSchema \<Rightarrow>
                 (case parsed of None \<Rightarrow> Inl SyntaxError
                  | Some v \<Rightarrow> Inr (inferredSchema, v)))
          else if contentType = ''text/html'' \<or> contentType = ''text/plain'' then
            Inr (textStringToTypeboxSchema responseData, Str responseData)
          else Inr (Undefined, Str responseData))"

definition STATUS_CODE_MAP :: "nat \<Rightarrow> string option" where
  "STATUS_CODE_MAP = map_of
     [(200, ''Success''), (400, ''Validation Error''), (403, ''Forbidden''),
      (404, ''Not Found''), (418, ''I'' @ [CHR 0x27] @ ''m a teampot''),
      (500, ''Internal Server Error''), (504, ''Gateway Timeout'')]"

definition newResponseSchema :: "jsval \<Rightarrow> jsval" where
  "newResponseSchema schemaRef =
     Obj [(Key ''schema'',
           Obj [(Key ''$ref'', schemaRef), (Key ''x-openapi-sample-count'', Num 1)])]"

text \<open>
  \<open>(count as number) + 1\<close>: the sum of doubles on a number, \<open>null\<close>, \<open>undefined\<close>
  or a boolean; the text followed by \<open>1\<close> on a string, an array or an object.
\<close>

fun plusOne :: "jsval \<Rightarrow> jsval" where
  "plusOne (Num c) = Num (roundToDouble (c + 1))"
| "plusOne Null = Num 1"
| "plusOne (Bool b) = Num (if b then 2 else 1)"
| "plusOne Undefined = NaN"
| "plusOne NaN = NaN"
| "plusOne (Str s) = Str (s @ ''1'')"
| "plusOne (Arr xs) = Str (joinText xs @ ''1'')"
| "plusOne (Obj kvs) = Str ''[object Object]1''"

text \<open>
  \<open>isReferenceObject(obj)\<close> of openapi3-ts is
  \<open>Object.prototype.hasOwnProperty.call(obj, '$ref')\<close>, which throws on \<open>undefined\<close> and
  \<open>null\<close>.
\<close>

definition isReferenceObject :: "jsval \<Rightarrow> bool result" where
  "isReferenceObject obj = (if nullish obj then Inl TypeError else Inr (hasKey obj ''$ref''))"

text \<open>
  The branch for a response already present (lines 844 to 945), in three steps. \<open>place\<close>
  is the path of \<open>contentTypeObj\<close> in the document. TypeBox's \<open>Value.Check\<close> and
  \<open>Type.Composite\<close> are parameters: the handler uses their results only, and what
  is proved of it holds whatever they compute.

  \<open>replaceDefinition\<close> (lines 905 to 936) writes the merged schema over the referenced
  entry. \<open>Type.Strict(undefined)\<close> is \<open>JSON.parse(undefined)\<close>, a \<open>SyntaxError\<close>.
\<close>

definition replaceDefinition ::
  "(jsval \<Rightarrow> jsval \<Rightarrow> (pkey \<times> jsval) list)
   \<Rightarrow> sampling_mode \<Rightarrow> string \<Rightarrow> jsval \<Rightarrow> jsval \<Rightarrow> jsval \<Rightarrow> outcome" where
  "replaceDefinition Composite mode refId typeboxRefSchema inferredSchema rootDoc1 =
     (case mode of
        Combine \<Rightarrow>
          (case mergeObjectSchemas Composite typeboxRefSchema inferredSchema of
             Inl e \<Rightarrow> (rootDoc1, Some e)
           | Inr merged \<Rightarrow>
               (case flattenIntersections merged of
                  Inl e \<Rightarrow> (rootDoc1, Some e)
                | Inr mergedSchema \<Rightarrow>
                    if mergedSchema = Undefined then (rootDoc1, Some SyntaxError)
                    else (setPath [''components'', ''schemas'', refId]
                            (Type_Strict mergedSchema) rootDoc1, None)))
      | Individual \<Rightarrow>
          (let mergedSchema =
                 (if TypeGuard_IsUnion typeboxRefSchema
                  then setProp ''anyOf''
                         (Arr (elems (getProp typeboxRefSchema ''anyOf'') @ [inferredSchema]))
                         typeboxRefSchema
                  else Type_Union [typeboxRefSchema, inferredSchema] Undefined)
           in (setPath [''components'', ''schemas'', refId] (Type_Strict mergedSchema) rootDoc1,
               None)))"

text \<open>
  \<open>mergeCompiled\<close> (lines 856 to 904): the comparison with the inferred schema, the
  count, the two early returns. \<open>schema\<close> is \<open>contentTypeObj.schema\<close>.
\<close>

definition mergeCompiled ::
  "(jsval \<Rightarrow> jsval \<Rightarrow> bool result)
   \<Rightarrow> (jsval \<Rightarrow> jsval \<Rightarrow> (pkey \<times> jsval) list)
   \<Rightarrow> sampling_mode \<Rightarrow> string list \<Rightarrow> jsval \<Rightarrow> string \<Rightarrow> jsval \<Rightarrow> jsval \<Rightarrow> jsval \<Rightarrow> jsval
   \<Rightarrow> outcome" where
  "mergeCompiled Check Composite mode place schema refId typeboxRefSchema inferredSchema
       responseData rootDoc =
     (let responsesEqual = isDeepEqual typeboxRefSchema inferredSchema [''example''];
          counted = (if hasKey schema ''x-openapi-sample-count''
                     then plusOne (getProp schema ''x-openapi-sample-count'')
                     else Num 1);
          rootDoc1 = setPath (place @ [''schema'', ''x-openapi-sample-count'']) counted rootDoc
      in if responsesEqual then (rootDoc1, None)
         else case Check typeboxRefSchema responseData of
           Inl e \<Rightarrow> (rootDoc1, Some e)
         | Inr True \<Rightarrow> (rootDoc1, None)
         | Inr False \<Rightarrow>
             replaceDefinition Composite mode refId typeboxRefSchema inferredSchema rootDoc1)"

definition mergeResponse ::
  "(jsval \<Rightarrow> jsval \<Rightarrow> bool result)
   \<Rightarrow> (jsval \<Rightarrow> jsval \<Rightarrow> (pkey \<times> jsval) list)
   \<Rightarrow> sampling_mode \<Rightarrow> string list \<Rightarrow> jsval \<Rightarrow> jsval \<Rightarrow> jsval \<Rightarrow> jsval \<Rightarrow> outcome" where
  "mergeResponse Check Composite mode place contentTypeObj inferredSchema
       responseData rootDoc =
     (if contentTypeObj = Null then (rootDoc, Some TypeError)
      else case isReferenceObject (getProp contentTypeObj ''schema'') of
        Inl e \<Rightarrow> (rootDoc, Some e)
      | Inr False \<Rightarrow> (rootDoc, None)
      | Inr True \<Rightarrow>
          (case getProp (getProp contentTypeObj ''schema'') ''$ref'' of
             Str ref \<Rightarrow>
               (let refId = drop (length ''#/components/schemas/'') ref;
                    refSchema = optProp (getProp rootDoc ''components'') ''schemas''
                in if nullish refSchema then (rootDoc, Some TypeError)
                   else case jsonSchemaToTypebox (getProp refSchema refId) of
                     Inl e \<Rightarrow> (rootDoc, Some e)
                   | Inr typeboxRefSchema \<Rightarrow>
                       mergeCompiled Check Composite mode place (getProp contentTypeObj ''schema'')
                         refId typeboxRefSchema inferredSchema responseData rootDoc)
           | _ \<Rightarrow> (rootDoc, Some TypeError)))"

text \<open>
  The part of the handler after the inference (lines 793 to 982).
\<close>

definition recordResponse ::
  "(jsval \<Rightarrow> jsval \<Rightarrow> bool result)
   \<Rightarrow> (jsval \<Rightarrow> jsval \<Rightarrow> (pkey \<times> jsval) list)
   \<Rightarrow> sampling_mode \<Rightarrow> string \<Rightarrow> string \<Rightarrow> nat \<Rightarrow> string \<Rightarrow> jsval \<Rightarrow> jsval \<Rightarrow> jsval \<Rightarrow> outcome" where
  "recordResponse Check Composite mode path method statusCode contentType
       inferredSchema responseData rootDoc =
     (let pathObject = optProp (getProp rootDoc ''paths'') path;
          prettyName = prettyNameOf path method contentType statusCode;
          statusPlace = [''paths'', path, method, ''responses'', num_str statusCode]
      in if truthy pathObject \<and> contentType \<noteq> [] \<and> truthy inferredSchema then
           (let methodObj = optProp (getProp pathObject method) ''responses''
            in if truthy methodObj then
                 (let statusCodeObj = getProp methodObj (num_str statusCode)
                  in if truthy statusCodeObj then
                       (case statusCodeObj of
                          Obj props \<Rightarrow>
                            if hasKey statusCodeObj ''content'' then
                              (if nullish (getProp statusCodeObj ''content'') then (rootDoc, Some TypeError)
                               else
                                 (let contentTypeObj = getProp (getProp statusCodeObj ''content'') contentType
                                  in if contentTypeObj = Undefined then
                                       (case addBodyTypeToSchema prettyName inferredSchema rootDoc of
                                          Inl e \<Rightarrow> (rootDoc, Some e)
                                        | Inr (schemaRef, node, rootDoc') \<Rightarrow>
                                            (setPath (statusPlace @ [''content'', contentType])
                                               (newResponseSchema schemaRef) rootDoc', None))
                                     else mergeResponse Check Composite mode
                                            (statusPlace @ [''content'', contentType]) contentTypeObj
                                            inferredSchema responseData rootDoc))
                            else (rootDoc, None)
                        | Arr entries \<Rightarrow> (rootDoc, None)
                        | _ \<Rightarrow> (rootDoc, Some TypeError))
                     else
                       (case addBodyTypeToSchema prettyName inferredSchema rootDoc of
                          Inl e \<Rightarrow> (rootDoc, Some e)
                        | Inr (schemaRef, node, rootDoc') \<Rightarrow>
                            (setPath statusPlace
                               (Obj [(Key ''description'',
                                      Str (case STATUS_CODE_MAP statusCode of Some d \<Rightarrow> d | None \<Rightarrow> [])),
                                     (Key ''content'',
                                      Obj [(Key contentType, newResponseSchema schemaRef)])])
                               rootDoc', None)))
               else (rootDoc, None))
         else (rootDoc, None))"

definition sampleResponse ::
  "(jsval \<Rightarrow> jsval \<Rightarrow> bool result)
   \<Rightarrow> (jsval \<Rightarrow> jsval \<Rightarrow> (pkey \<times> jsval) list)
   \<Rightarrow> SampleResponseOptions option \<Rightarrow> SampleResponseOptions option
   \<Rightarrow> Observation \<Rightarrow> jsval \<Rightarrow> outcome" where
  "sampleResponse Check Composite handlerSampleOptions gSampleOptions c rootDoc =
     (let contentType = normalizeContentType (contentTypeHeader c)
      in case inferResponse contentType (body c) (bodyJson c) of
           Inl e \<Rightarrow> (rootDoc, Some e)
         | Inr (inferredSchema, responseData) \<Rightarrow>
             recordResponse Check Composite
               (samplingMethod handlerSampleOptions gSampleOptions)
               (routePath c) (toLowerCase (reqMethod c)) (status c) contentType
               inferredSchema responseData rootDoc)"

definition snoopOnResponseHandler ::
  "(jsval \<Rightarrow> jsval \<Rightarrow> bool result)
   \<Rightarrow> (jsval \<Rightarrow> jsval \<Rightarrow> (pkey \<times> jsval) list)
   \<Rightarrow> SampleResponseOptions option \<Rightarrow> SampleResponseOptions option
   \<Rightarrow> Observation \<Rightarrow> jsval \<Rightarrow> outcome" where
  "snoopOnResponseHandler Check Composite handlerSampleOptions gSampleOptions
       c rootDoc =
     (let count = sampledCount rootDoc (routePath c) (toLowerCase (reqMethod c)) (status c)
                    (normalizeContentType (contentTypeHeader c))
      in if bail count (maxResponsesToSample handlerSampleOptions gSampleOptions)
                 (sampleInterval handlerSampleOptions gSampleOptions) (random c)
         then (rootDoc, None)
         else sampleResponse Check Composite handlerSampleOptions
                gSampleOptions c rootDoc)"

subsection \<open>Places in the document\<close>

text \<open>
  \<open>walk\<close> follows a list of keys through objects and answers what it finds, if
  every key on the way is a property of an object. \<open>responsePlace\<close> is where the
  response of an observation is recorded.
\<close>

fun walk :: "string list \<Rightarrow> jsval \<Rightarrow> jsval option" where
  "walk [] v = Some v"
| "walk (k # ks) (Obj kvs) = (case map_of kvs (Key k) of Some v \<Rightarrow> walk ks v | None \<Rightarrow> None)"
| "walk (k # ks) v = None"

definition responsePlace :: "string \<Rightarrow> string \<Rightarrow> nat \<Rightarrow> string \<Rightarrow> string list" where
  "responsePlace path method statusCode contentType =
     [''paths'', path, method, ''responses'', num_str statusCode, ''content'', contentType]"


section \<open>Route registration (addOrAugmentOpenApiRoute)\<close>

subsection \<open>Path parameters of a route path\<close>

text \<open>
  \<open>path.match(/\/:\w*/g)\<close>: the matches from left to right, none overlapping; each is
  \<open>/:\<close> and the longest run of word characters after it. The name of the parameter is
  the match without its first two characters.
\<close>

definition isWordChar :: "char \<Rightarrow> bool" where
  "isWordChar c =
     (let n = (of_char c :: nat)
      in (48 \<le> n \<and> n \<le> 57) \<or> (65 \<le> n \<and> n \<le> 90) \<or> (97 \<le> n \<and> n \<le> 122) \<or> n = 95)"

function matchPathParams :: "string \<Rightarrow> string list" where
  "matchPathParams [] = []"
| "matchPathParams (c # cs) =
     (if c = CHR ''/'' \<and> take 1 cs = '':'' then
        (''/:'' @ takeWhile isWordChar (drop 1 cs))
          # matchPathParams (dropWhile isWordChar (drop 1 cs))
      else matchPathParams cs)"
  by pat_completeness auto
termination
proof (relation "measure length", goal_cases)
  case 1
  show ?case by simp
next
  case (2 c cs)
  have "length (dropWhile isWordChar (drop 1 cs)) \<le> length (drop 1 cs)"
    by (rule length_dropWhile_le)
  then show ?case by simp
next
  case (3 c cs)
  show ?case by simp
qed

definition inferredPathParameter :: "string \<Rightarrow> jsval" where
  "inferredPathParameter p =
     Obj [(Key ''in'', Str ''path''), (Key ''name'', Str (drop 2 p)),
          (Key ''schema'', Type_String Undefined), (Key ''required'', Bool True)]"

definition inferPathParameters :: "string \<Rightarrow> jsval list" where
  "inferPathParameters path = (if path \<noteq> [] then map inferredPathParameter (matchPathParams path) else [])"


subsection \<open>Declared parameters\<close>

text \<open>
  \<open>a ?? b\<close>
\<close>

definition orElse :: "jsval \<Rightarrow> jsval \<Rightarrow> jsval" where
  "orElse a b = (if nullish a then b else a)"

text \<open>
  The closure \<open>addParameter(type, typeSchema)\<close>: one parameter per property of the
  declared object schema, registered through \<open>addParameterToSchema\<close>; the reference is
  pushed on \<open>parameters\<close>. The state of the loop is the list \<open>parameters\<close>, the
  properties with their nodes as the registration leaves them, and the document. The
  property schemas of a validation schema are taken to be distinct objects.
  \<open>definition.required?.includes(name) ?? false\<close> is \<open>requiredIncludes\<close>.
\<close>

definition parameterObjectOf :: "string \<Rightarrow> string \<Rightarrow> jsval \<Rightarrow> bool \<Rightarrow> jsval" where
  "parameterObjectOf type name schema isRequired =
     (let exampleIsArray = isArray (getProp schema ''examples'')
      in Obj [(Key ''in'', Str type), (Key ''name'', Str name), (Key ''schema'', schema),
              (Key ''required'', Bool isRequired),
              (Key ''examples'', if exampleIsArray then getProp schema ''examples'' else Undefined),
              (Key ''example'', if \<not> exampleIsArray then getProp schema ''examples'' else Undefined)])"

fun addParameter_forEach ::
  "string \<Rightarrow> jsval \<Rightarrow> (string \<times> jsval) list \<Rightarrow> jsval list \<times> (pkey \<times> jsval) list \<times> jsval
   \<Rightarrow> (jsval list \<times> (pkey \<times> jsval) list \<times> jsval) result" where
  "addParameter_forEach type definition [] state = Inr state"
| "addParameter_forEach type definition ((name, schema) # rest) (parameters, nodes, rootDoc) =
     (if nullish schema then Inl TypeError
      else case requiredIncludes definition name of
        Inl e \<Rightarrow> Inl e
      | Inr isRequired \<Rightarrow>
          (case addParameterToSchema (parameterObjectOf type name schema isRequired) schema rootDoc of
             Inl e \<Rightarrow> Inl e
           | Inr (parameterRef, schema', rootDoc') \<Rightarrow>
               addParameter_forEach type definition rest
                 (parameters @ [Obj [(Key ''$ref'', parameterRef)]],
                  putKey (Key name) schema' nodes, rootDoc')))"

definition addDeclaredParameter ::
  "string \<Rightarrow> jsval \<Rightarrow> jsval list \<times> jsval \<Rightarrow> (jsval \<times> jsval list \<times> jsval) result" where
  "addDeclaredParameter type typeSchema state =
     (case state of (parameters, rootDoc) \<Rightarrow>
        if typeSchema = Undefined then Inr (typeSchema, parameters, rootDoc)
        else if typeSchema = Null \<or> nullish (getProp typeSchema ''properties'') then Inl TypeError
        else
          case addParameter_forEach type typeSchema (Object_entries (getProp typeSchema ''properties''))
                 (parameters, spread (getProp typeSchema ''properties''), rootDoc) of
            Inl e \<Rightarrow> Inl e
          | Inr (parameters', nodes, rootDoc') \<Rightarrow>
              Inr (setProp ''properties'' (Obj nodes) typeSchema, parameters', rootDoc'))"


subsection \<open>The operation\<close>

text \<open>
  \<open>addPath(path, pathItem)\<close> of the builder: the path item is spread over the one
  already there.
\<close>

definition addPath :: "string \<Rightarrow> jsval \<Rightarrow> jsval \<Rightarrow> jsval" where
  "addPath path pathItem rootDoc =
     (let paths = orEmpty (getProp rootDoc ''paths'');
          merged = foldl (\<lambda>acc (k, v). putKey k v acc) (spread (orEmpty (getProp paths path)))
                     (spread pathItem)
      in setProp ''paths'' (setProp path (Obj merged) paths) rootDoc)"

text \<open>
  The request side of the registration before the path parameters: the body schema and
  the query, cookie and header parameters, in this order. The result is the request body,
  the list \<open>parameters\<close>, the validation schemas with their nodes as left, and the
  document.
\<close>

definition declaredRequest ::
  "string \<Rightarrow> string \<Rightarrow> jsval \<Rightarrow> jsval \<Rightarrow> (jsval \<times> jsval list \<times> jsval \<times> jsval) result" where
  "declaredRequest method path validationSchema rootDoc =
     (case (if optProp validationSchema ''json'' \<noteq> Undefined
            then (case addBodyTypeToSchema (capitalizeRoute path @ ''Request_'' @ method)
                         (optProp validationSchema ''json'') rootDoc of
                    Inl e \<Rightarrow> Inl e
                  | Inr (ref, node, rootDoc') \<Rightarrow>
                      Inr (Obj [(Key ''content'',
                                 Obj [(Key ''application/json'',
                                       Obj [(Key ''schema'', Obj [(Key ''$ref'', ref)])])])],
                           setProp ''json'' node validationSchema, rootDoc'))
            else Inr (Undefined, validationSchema, rootDoc)) of
        Inl e \<Rightarrow> Inl e
      | Inr (requestBody, vs0, doc0) \<Rightarrow>
          (case addDeclaredParameter ''query'' (optProp vs0 ''query'') ([], doc0) of
             Inl e \<Rightarrow> Inl e
           | Inr (query', parameters1, doc1) \<Rightarrow>
               (case addDeclaredParameter ''cookie'' (optProp vs0 ''cookie'') (parameters1, doc1) of
                  Inl e \<Rightarrow> Inl e
                | Inr (cookie', parameters2, doc2) \<Rightarrow>
                    (case addDeclaredParameter ''header'' (optProp vs0 ''header'') (parameters2, doc2) of
                       Inl e \<Rightarrow> Inl e
                     | Inr (header', parameters3, doc3) \<Rightarrow>
                         Inr (requestBody, parameters3,
                              (if query' = Undefined then id else setProp ''query'' query')
                                ((if cookie' = Undefined then id else setProp ''cookie'' cookie')
                                   ((if header' = Undefined then id else setProp ''header'' header') vs0)),
                              doc3)))))"

definition operationObject ::
  "string \<Rightarrow> string \<Rightarrow> jsval \<Rightarrow> jsval \<Rightarrow> jsval \<Rightarrow> jsval \<Rightarrow> jsval list \<Rightarrow> jsval" where
  "operationObject method path routeDefinition defaultTag existingSpec requestBody parameters =
     (let rd = orElse routeDefinition (Obj []);
          operationId = orElse (optProp routeDefinition ''operationId'')
                          (Str (method @ capitalizeRoute path))
      in Obj [(Key ''summary'', orElse (getProp rd ''summary'') (optProp existingSpec ''summary'')),
              (Key ''description'',
               orElse (getProp rd ''description'') (optProp existingSpec ''description'')),
              (Key ''deprecated'',
               orElse (getProp rd ''deprecated'') (optProp existingSpec ''deprecated'')),
              (Key ''tags'',
               if truthy (orElse (getProp rd ''tags'') defaultTag) then Arr [defaultTag]
               else Undefined),
              (Key ''externalDocs'',
               orElse (getProp rd ''externalDocs'') (optProp existingSpec ''externalDocs'')),
              (Key ''operationId'', operationId),
              (Key ''requestBody'', requestBody),
              (Key ''parameters'', Arr parameters),
              (Key ''security'', orElse (getProp rd ''security'') (optProp existingSpec ''security'')),
              (Key ''responses'', orElse (optProp existingSpec ''responses'') (Obj []))])"

text \<open>
  \<open>addOrAugmentOpenApiRoute(method, path, routeDefinition, validationSchema)\<close>;
  \<open>defaultTag\<close> is \<open>this.openApiOptions.openApi?.defaultTag\<close>. The result is the
  validation schemas as left and the document.
\<close>

definition addOrAugmentOpenApiRoute ::
  "string \<Rightarrow> string \<Rightarrow> jsval \<Rightarrow> jsval \<Rightarrow> jsval \<Rightarrow> jsval \<Rightarrow> (jsval \<times> jsval) result" where
  "addOrAugmentOpenApiRoute method path routeDefinition validationSchema defaultTag rootDoc =
     (let rd = orElse routeDefinition (Obj []);
          existingSpec = optProp (optProp (getProp rootDoc ''paths'') path) method
      in if routeDefinition = Undefined \<and> existingSpec \<noteq> Undefined
         then Inr (validationSchema, rootDoc)
         else
           case declaredRequest method path validationSchema rootDoc of
             Inl e \<Rightarrow> Inl e
           | Inr (requestBody, declared, vs1, doc1) \<Rightarrow>
               (case (if optProp validationSchema ''param'' \<noteq> Undefined
                      then addDeclaredParameter ''path'' (optProp vs1 ''param'') (declared, doc1)
                      else Inr (Undefined, declared @ inferPathParameters path, doc1)) of
                  Inl e \<Rightarrow> Inl e
                | Inr (param', parameters, doc2) \<Rightarrow>
                    (let pathInfo =
                           Obj (putKey (Key method)
                                  (operationObject method path routeDefinition defaultTag
                                     existingSpec requestBody parameters)
                                  [(Key ''$ref'', getProp rd ''$ref''),
                                   (Key ''servers'',
                                    orElse (getProp rd ''servers'') (optProp existingSpec ''servers''))])
                     in Inr ((if param' = Undefined then id else setProp ''param'' param') vs1,
                             addPath path pathInfo doc2))))"


section \<open>Well-formed inputs\<close>

subsection \<open>Well-formed inputs of the registration\<close>

text \<open>
  A schema node is an object whose reference map, when present, is an object (the declared
  type of \<open>open_api_ref\<close>). A parameter \<open>of\<close> a node is a parameter object with the
  given name and location whose \<open>schema\<close> is the node, as \<open>addOrAugmentOpenApiRoute\<close>
  builds it. \<open>namesFree\<close> says that \<open>components\<close> exists and that
  \<open>components.parameters\<close> holds nothing under the given names.
\<close>

definition nodeWellFormed :: "jsval \<Rightarrow> bool" where
  "nodeWellFormed schema =
     (case schema of
        Obj kvs \<Rightarrow> (case getProp schema ''open_api_ref'' of
                      Undefined \<Rightarrow> True | Obj m \<Rightarrow> True | _ \<Rightarrow> False)
      | _ \<Rightarrow> False)"





text \<open>
  \<open>stripRefs\<close> removes every \<open>open_api_ref\<close> property, at any depth: two values are
  structurally equal up to the reference-map annotation when their images are equal.
\<close>

fun stripRefs :: "jsval \<Rightarrow> jsval"
  and stripRefs_fields :: "(pkey \<times> jsval) list \<Rightarrow> (pkey \<times> jsval) list"
  and stripRefs_elems :: "jsval list \<Rightarrow> jsval list" where
  "stripRefs (Obj kvs) = Obj (stripRefs_fields kvs)"
| "stripRefs (Arr xs) = Arr (stripRefs_elems xs)"
| "stripRefs v = v"
| "stripRefs_fields [] = []"
| "stripRefs_fields ((k, v) # kvs) =
     (if k = Key ''open_api_ref'' then stripRefs_fields kvs
      else (k, stripRefs v) # stripRefs_fields kvs)"
| "stripRefs_elems [] = []"
| "stripRefs_elems (x # xs) = stripRefs x # stripRefs_elems xs"


subsection \<open>Route paths as segments\<close>











section \<open>Sample schemas\<close>

text \<open>
  Schemas as the sampler infers them from a response: a string with its example, an
  array, and an object closed by \<open>additionalProperties: false\<close>.
\<close>

definition sample_text :: "string \<Rightarrow> jsval" where
  "sample_text e = Type_String (Obj [(Key ''example'', Str e)])"

definition sample_array :: jsval where
  "sample_array = Type_Array (IntersectCreate [sample_text ''p'', sample_text ''q''] Undefined) Undefined"

definition sample_object :: "string \<Rightarrow> jsval" where
  "sample_object e =
     Type_Object [(Key ''a'', sample_text e)] (Obj [(Key ''additionalProperties'', Bool False)])"

text \<open>
  The document of a new instance (the constructor's defaults), and a query parameter
  \<open>lang\<close> as \<open>addOrAugmentOpenApiRoute\<close> builds it from a property schema.
\<close>

definition emptyDoc :: jsval where
  "emptyDoc = Obj [(Key ''openapi'', Str ''3.1.0''),
                   (Key ''info'', Obj [(Key ''title'', Str ''OpenApi Spec''), (Key ''version'', Str ''0.0.0'')]),
                   (Key ''components'', Obj [])]"

definition langParam :: "jsval \<Rightarrow> jsval" where
  "langParam schema = Obj [(Key ''in'', Str ''query''), (Key ''name'', Str ''lang''), (Key ''schema'', schema),
      (Key ''required'', Bool True), (Key ''examples'', Undefined), (Key ''example'', getProp schema ''examples'')]"

definition langSchema :: "string \<Rightarrow> jsval" where
  "langSchema e = Type_String (Obj [(Key ''examples'', Str e)])"

definition langDoc :: jsval where
  "langDoc = addParameter ''lang_query''
               (parameterCopy (langParam (langSchema ''de'')) (langSchema ''de'')) emptyDoc"





text \<open>
  Stand-ins for \<open>Value.Check\<close> and \<open>Type.Composite\<close> on runs that do not reach them.
\<close>

definition noCheck :: "jsval \<Rightarrow> jsval \<Rightarrow> bool result" where
  "noCheck schema v = Inl (Error ''Value.Check'')"

definition noComposite :: "jsval \<Rightarrow> jsval \<Rightarrow> (pkey \<times> jsval) list" where
  "noComposite x y = []"

text \<open>
  The document after \<open>app.get('/test', ...)\<close>; responses of that route with the JSON
  body \<open>{"a": v}\<close>, and one whose body \<open>OK\<close> is not JSON; the document after a first
  response \<open>{"a": "x"}\<close> was sampled; and the options \<open>{ samplingMaxCount: 1 }\<close>.
\<close>

definition testDoc :: jsval where
  "testDoc = (case addOrAugmentOpenApiRoute ''get'' ''/test'' Undefined Undefined Undefined emptyDoc of
                Inr (vs, d) \<Rightarrow> d | Inl e \<Rightarrow> Undefined)"

definition jsonResponse :: "string \<Rightarrow> Observation" where
  "jsonResponse v =
     \<lparr>routePath = ''/test'', reqMethod = ''GET'',
      contentTypeHeader = Some ''application/json; charset=UTF-8'', status = 200,
      body = Some (''{\"a\":\"'' @ v @ ''\"}''), bodyJson = Some (Obj [(Key ''a'', Str v)]),
      random = 1 / 2\<rparr>"


definition sampledDoc :: jsval where
  "sampledDoc = fst (snoopOnResponseHandler noCheck noComposite None None (jsonResponse ''x'') testDoc)"

definition atMostOnce :: SampleResponseOptions where
  "atMostOnce = \<lparr>samplingMode = Combine, samplingInterval = None, samplingMaxCount = Some (Finite 1)\<rparr>"








section \<open>Properties\<close>

subsection \<open>Helper lemmas\<close>






lemma plusOne_saturated: "plusOne (Num (2 ^ 53)) = Num (2 ^ 53)"
  by code_simp


lemma getProp_putKey_same: "getProp (Obj (putKey (Key k) v kvs)) k = v"
  by (induction kvs) auto

lemma includes_Str:
  "list_all (\<lambda>k. case k of Str n \<Rightarrow> True | _ \<Rightarrow> False) ys \<Longrightarrow> Array_includes ys (Str n) \<longleftrightarrow> Str n \<in> set ys"
  by (induction ys) (auto simp: Array_includes_def sameValueZero_def split: jsval.splits)

lemma strict_eq_imp_eq: "strict_eq a b \<Longrightarrow> a = b"
  by (cases a; cases b) auto

lemma set_Set_add: "set (Set_add s x) = insert x (set s)"
proof (cases "Array_includes s x")
  case False
  then show ?thesis by (simp add: Set_add_def)
next
  case True
  then obtain y where y: "y \<in> set s" "sameValueZero y x"
    by (auto simp: Array_includes_def list_ex_iff)
  from y(2) have "y = x" by (simp add: sameValueZero_def) (metis strict_eq_imp_eq)
  with y True show ?thesis by (auto simp: Set_add_def)
qed

lemma existsInBoth_loop_Arr:
  assumes "list_all (\<lambda>k. case k of Str n \<Rightarrow> True | _ \<Rightarrow> False) xs"
    and "list_all (\<lambda>k. case k of Str n \<Rightarrow> True | _ \<Rightarrow> False) ys"
  shows "\<exists>r. existsInBoth_loop xs (Arr ys) acc = Inr r \<and> set r = set acc \<union> (set xs \<inter> set ys)"
  using assms(1)
proof (induction xs arbitrary: acc)
  case Nil
  then show ?case by simp
next
  case (Cons x xs)
  then obtain n where n: "x = Str n" by (cases x) auto
  from Cons.prems have xs: "list_all (\<lambda>k. case k of Str n \<Rightarrow> True | _ \<Rightarrow> False) xs" by simp
  show ?case
  proof (cases "Str n \<in> set ys")
    case True
    from Cons.IH[OF xs, of "Set_add acc x"] True n includes_Str[OF assms(2), of n]
    show ?thesis by (auto simp: set_Set_add)
  next
    case False
    from Cons.IH[OF xs, of acc] False n includes_Str[OF assms(2), of n]
    show ?thesis by auto
  qed
qed

lemma existsInBoth_loop_Undefined:
  "existsInBoth_loop xs Undefined acc = Inr acc"
  by (induction xs arbitrary: acc) auto

lemma existsInBoth_sound:
  assumes "requiredWellTyped x" and "requiredWellTyped y"
  shows "\<exists>r. existsInBoth x y = Inr r \<and> set r = requiredSet x \<inter> requiredSet y"
proof -
  from assms obtain kx ky where o: "x = Obj kx" "y = Obj ky"
    by (cases x; cases y) (auto simp: requiredWellTyped_def)
  consider (none) "getProp x ''required'' = Undefined"
    | (some) xs where "getProp x ''required'' = Arr xs"
        "list_all (\<lambda>k. case k of Str n \<Rightarrow> True | _ \<Rightarrow> False) xs"
    using assms(1) o by (auto simp: requiredWellTyped_def split: jsval.splits)
  then show ?thesis
  proof cases
    case none
    then show ?thesis by (simp add: existsInBoth_def requiredSet_def)
  next
    case some
    consider (ynone) "getProp y ''required'' = Undefined"
      | (ysome) ys where "getProp y ''required'' = Arr ys"
          "list_all (\<lambda>k. case k of Str n \<Rightarrow> True | _ \<Rightarrow> False) ys"
      using assms(2) o by (auto simp: requiredWellTyped_def split: jsval.splits)
    then show ?thesis
    proof cases
      case ynone
      with some show ?thesis
        by (simp add: existsInBoth_def requiredSet_def existsInBoth_loop_Undefined)
    next
      case ysome
      from existsInBoth_loop_Arr[OF some(2) ysome(2), of "[]"] some(1) ysome(1)
      show ?thesis by (simp add: existsInBoth_def requiredSet_def)
    qed
  qed
qed

subsection \<open>Registration and deep equality\<close>


lemma map_of_putKey_same [simp]: "map_of (putKey k v kvs) k = Some v"
  by (induction kvs) auto



lemma refOf_writeRef:
  assumes "nodeWellFormed s"
  shows "refOf (writeRef k ref s) k = Str ref"
proof -
  from assms obtain kvs where s: "s = Obj kvs" by (cases s) (auto simp: nodeWellFormed_def)
  from assms s consider (u) "getProp (Obj kvs) ''open_api_ref'' = Undefined"
    | (m) m where "getProp (Obj kvs) ''open_api_ref'' = Obj m"
    by (auto simp: nodeWellFormed_def split: jsval.splits)
  then show ?thesis
  proof cases
    case u
    then show ?thesis using s
      by (simp add: refOf_def writeRef_def Let_def)
  next
    case m
    then show ?thesis using s
      by (simp add: refOf_def writeRef_def Let_def)
  qed
qed

lemma writeRef_Obj: "nodeWellFormed s \<Longrightarrow> \<not> nullish (writeRef k ref s)"
  by (cases s) (auto simp: writeRef_def nodeWellFormed_def Let_def)

lemma probeName_Reuse:
  "probeName p ps base i cur = Reuse n
   \<Longrightarrow> truthy (getProp ps n) \<and> isDeepEqual p (getProp ps n) [''open_api_ref'']"
proof (induction p ps base i cur rule: probeName.induct)
  case (1 parameter parameters base i curName)
  from "1.prems" show ?case
    by (subst (asm) probeName.simps) (auto split: if_splits dest: "1.IH"[rotated -1])
qed

lemma probeName_empty: "probeName p (Obj []) base 0 cur = Fresh cur"
  by (subst probeName.simps) simp








lemma strict_elems_length [simp]: "length (strict_elems xs) = length xs"
  by (induction xs) auto







lemma stripRefs_elems_length [simp]: "length (stripRefs_elems xs) = length xs"
  by (induction xs) auto









lemma putKey_putKey [simp]: "putKey k v (putKey k w kvs) = putKey k v kvs"
  by (induction kvs) auto


lemma Type_Strict_Obj: "\<exists>kvs'. Type_Strict (Obj kvs) = Obj kvs'"
  by simp









lemma stripRefs_Str: "stripRefs v = Str s \<Longrightarrow> v = Str s"
  by (cases v) auto

subsection \<open>The sampler\<close>

lemma walk_Cons:
  assumes "walk (k # ks) d = Some v"
  obtains kvs d' where "d = Obj kvs" "map_of kvs (Key k) = Some d'" "getProp d k = d'"
    "hasKey d k" "walk ks d' = Some v"
proof -
  from assms obtain kvs where d: "d = Obj kvs" by (cases d) auto
  with assms obtain d' where d': "map_of kvs (Key k) = Some d'" "walk ks d' = Some v"
    by (cases "map_of kvs (Key k)") auto
  from d'(1) have "Key k \<in> fst ` set kvs" by (metis domI dom_map_of_conv_image_fst)
  with d d' that show ?thesis by simp
qed

lemma walk_Cons_Obj:
  assumes "walk (k # ks) d = Some v"
  shows "\<exists>kvs. d = Obj kvs"
  using assms by (cases d) auto



lemma foldl_optProp_walk:
  assumes "walk ks d = Some v" and "\<not> nullish v"
  shows "foldl optProp d ks = v"
  using assms
proof (induction ks arbitrary: d)
  case Nil
  then show ?case by simp
next
  case (Cons k ks)
  from Cons.prems(1) obtain kvs d' where d: "d = Obj kvs" "getProp d k = d'" "walk ks d' = Some v"
    by (rule walk_Cons)
  from Cons.IH[OF d(3) Cons.prems(2)] d show ?case by (simp add: optProp_def)
qed







lemma sampledCount_walk:
  assumes "walk (responsePlace path method statusCode contentType @ [''schema'', ''x-openapi-sample-count'']) rootDoc
           = Some (Num n)"
  shows "sampledCount rootDoc path method statusCode contentType = Num n"
proof -
  from assms obtain kvs paths where d: "rootDoc = Obj kvs" "getProp rootDoc ''paths'' = paths"
    and w1: "walk [path, method, ''responses'', num_str statusCode, ''content'', contentType,
                   ''schema'', ''x-openapi-sample-count''] paths = Some (Num n)"
    unfolding responsePlace_def by (auto elim: walk_Cons)
  from w1 obtain pk pathObject where p: "paths = Obj pk" "getProp paths path = pathObject"
    and w2: "walk [method, ''responses'', num_str statusCode, ''content'', contentType,
                   ''schema'', ''x-openapi-sample-count''] pathObject = Some (Num n)"
    by (auto elim: walk_Cons)
  have "foldl optProp pathObject [method, ''responses'', num_str statusCode, ''content'', contentType,
                   ''schema'', ''x-openapi-sample-count''] = Num n"
    by (rule foldl_optProp_walk[OF w2]) simp
  with d p show ?thesis
    unfolding sampledCount_def Let_def by (simp add: optProp_def del: foldl.simps foldl_Cons)
qed






subsection \<open>Route registration\<close>

















lemma operation_parameters:
  "getProp (operationObject method path routeDefinition defaultTag existingSpec requestBody parameters)
     ''parameters'' = Arr parameters"
  by (simp add: operationObject_def Let_def getProp.simps)




subsection \<open>Claims\<close>




text \<open>
  C2. With no count recorded the handler proceeds to the sampling. With a recorded count
  \<open>n\<close> it returns the document as it is exactly when \<open>n\<close> has reached the effective
  \<open>samplingMaxCount\<close> or the drawn random value exceeds the effective
  \<open>samplingInterval\<close>, and proceeds otherwise; so with interval 1 and the count below
  the maximum it always proceeds, \<open>Math.random()\<close> drawing from [0, 1). The effective
  values are those of the route, else those of the instance, else 1 and \<open>Infinity\<close>.
\<close>

theorem sampling_gate:
  fixes c :: Observation
  assumes drawn: "0 \<le> random c \<and> random c < 1"
    and count: "count = sampledCount rootDoc (routePath c) (toLowerCase (reqMethod c)) (status c)
                          (normalizeContentType (contentTypeHeader c))"
    and maxCount: "maxCount = maxResponsesToSample handlerSampleOptions gSampleOptions"
    and interval: "interval = sampleInterval handlerSampleOptions gSampleOptions"
    and run: "run = snoopOnResponseHandler Check Composite handlerSampleOptions gSampleOptions c rootDoc"
    and proceed: "proceed = sampleResponse Check Composite handlerSampleOptions gSampleOptions c rootDoc"
  shows "(count = Null \<longrightarrow> run = proceed)
       \<and> (\<forall>n. count = Num n \<longrightarrow>
             (if (case maxCount of Finite m \<Rightarrow> n \<ge> m | Infinity \<Rightarrow> False) \<or> random c > interval
              then run = (rootDoc, None) else run = proceed))
       \<and> (\<forall>n. count = Num n \<and> interval = 1
              \<and> \<not> (case maxCount of Finite m \<Rightarrow> n \<ge> m | Infinity \<Rightarrow> False) \<longrightarrow> run = proceed)
       \<and> (\<forall>n. walk (responsePlace (routePath c) (toLowerCase (reqMethod c)) (status c)
                       (normalizeContentType (contentTypeHeader c))
                     @ [''schema'', ''x-openapi-sample-count'']) rootDoc = Some (Num n)
              \<longrightarrow> count = Num n)
       \<and> interval = (case Option.bind handlerSampleOptions samplingInterval of
                       Some i \<Rightarrow> i
                     | None \<Rightarrow> (case Option.bind gSampleOptions samplingInterval of
                                  Some i \<Rightarrow> i | None \<Rightarrow> 1))
       \<and> maxCount = (case Option.bind handlerSampleOptions samplingMaxCount of
                       Some m \<Rightarrow> m
                     | None \<Rightarrow> (case Option.bind gSampleOptions samplingMaxCount of
                                  Some m \<Rightarrow> m | None \<Rightarrow> Infinity))"
proof (intro conjI allI impI)
  show "run = proceed" if "count = Null"
    using that unfolding run proceed snoopOnResponseHandler_def Let_def count[symmetric]
    by (simp add: bail_def)
next
  fix n
  assume n: "count = Num n"
  have reached: "countReached (Num n) maxCount = (case maxCount of Finite m \<Rightarrow> n \<ge> m | Infinity \<Rightarrow> False)"
    by (cases maxCount) (simp_all add: countReached_def)
  show "if (case maxCount of Finite m \<Rightarrow> n \<ge> m | Infinity \<Rightarrow> False) \<or> random c > interval
        then run = (rootDoc, None) else run = proceed"
    unfolding run proceed snoopOnResponseHandler_def Let_def count[symmetric] maxCount[symmetric]
      interval[symmetric] n bail_def reached
    by simp
next
  fix n
  assume a: "count = Num n \<and> interval = 1
              \<and> \<not> (case maxCount of Finite m \<Rightarrow> n \<ge> m | Infinity \<Rightarrow> False)"
  have reached: "countReached (Num n) maxCount = (case maxCount of Finite m \<Rightarrow> n \<ge> m | Infinity \<Rightarrow> False)"
    by (cases maxCount) (simp_all add: countReached_def)
  from a drawn have "\<not> bail count maxCount interval (random c)"
    by (simp add: bail_def reached)
  then show "run = proceed"
    unfolding run proceed snoopOnResponseHandler_def Let_def count[symmetric] maxCount[symmetric]
      interval[symmetric]
    by simp
next
  fix n
  assume "walk (responsePlace (routePath c) (toLowerCase (reqMethod c)) (status c)
                       (normalizeContentType (contentTypeHeader c))
                     @ [''schema'', ''x-openapi-sample-count'']) rootDoc = Some (Num n)"
  from sampledCount_walk[OF this] show "count = Num n" by (simp add: count)
next
  show "interval = (case Option.bind handlerSampleOptions samplingInterval of
                       Some i \<Rightarrow> i
                     | None \<Rightarrow> (case Option.bind gSampleOptions samplingInterval of
                                  Some i \<Rightarrow> i | None \<Rightarrow> 1))"
    by (simp add: interval sampleInterval_def)
next
  show "maxCount = (case Option.bind handlerSampleOptions samplingMaxCount of
                       Some m \<Rightarrow> m
                     | None \<Rightarrow> (case Option.bind gSampleOptions samplingMaxCount of
                                  Some m \<Rightarrow> m | None \<Rightarrow> Infinity))"
    by (simp add: maxCount maxResponsesToSample_def)
qed

theorem sampling_gate_witness:
  "0 \<le> random (jsonResponse ''y'') \<and> random (jsonResponse ''y'') < 1
   \<and> sampledCount testDoc ''/test'' ''get'' 200 ''application/json'' = Null
   \<and> snoopOnResponseHandler noCheck noComposite (Some atMostOnce) None (jsonResponse ''x'') testDoc
     = sampleResponse noCheck noComposite (Some atMostOnce) None (jsonResponse ''x'') testDoc
   \<and> sampledCount sampledDoc ''/test'' ''get'' 200 ''application/json'' = Num 1
   \<and> maxResponsesToSample (Some atMostOnce) None = Finite 1
   \<and> snoopOnResponseHandler noCheck noComposite (Some atMostOnce) None (jsonResponse ''y'') sampledDoc
     = (sampledDoc, None)
   \<and> sampleInterval None None = 1 \<and> maxResponsesToSample None None = Infinity
   \<and> snoopOnResponseHandler noCheck noComposite None None (jsonResponse ''y'') sampledDoc
     = sampleResponse noCheck noComposite None None (jsonResponse ''y'') sampledDoc"
proof -
  have drawn: "0 \<le> random (jsonResponse ''y'') \<and> random (jsonResponse ''y'') < 1"
    by (simp add: jsonResponse_def)
  have drawn': "0 \<le> random (jsonResponse ''x'') \<and> random (jsonResponse ''x'') < 1"
    by (simp add: jsonResponse_def)
  have half: "random (jsonResponse ''y'') = 1 / 2" by (simp add: jsonResponse_def)
  have first: "sampledCount testDoc (routePath (jsonResponse ''x'')) (toLowerCase (reqMethod (jsonResponse ''x'')))
                 (status (jsonResponse ''x'')) (normalizeContentType (contentTypeHeader (jsonResponse ''x'')))
               = Null" by code_simp
  have first': "sampledCount testDoc ''/test'' ''get'' 200 ''application/json'' = Null" by code_simp
  have later: "sampledCount sampledDoc (routePath (jsonResponse ''y'')) (toLowerCase (reqMethod (jsonResponse ''y'')))
                 (status (jsonResponse ''y'')) (normalizeContentType (contentTypeHeader (jsonResponse ''y'')))
               = Num 1" by code_simp
  have later': "sampledCount sampledDoc ''/test'' ''get'' 200 ''application/json'' = Num 1" by code_simp
  have once: "maxResponsesToSample (Some atMostOnce) None = Finite 1" by code_simp
  have always: "sampleInterval (Some atMostOnce) None = 1" by code_simp
  have defaults: "sampleInterval None None = 1" "maxResponsesToSample None None = Infinity"
    by code_simp+
  from sampling_gate[OF drawn' first[symmetric] refl refl refl refl,
      where Check = noCheck and Composite = noComposite and handlerSampleOptions = "Some atMostOnce"
        and gSampleOptions = None]
  have a: "snoopOnResponseHandler noCheck noComposite (Some atMostOnce) None (jsonResponse ''x'') testDoc
     = sampleResponse noCheck noComposite (Some atMostOnce) None (jsonResponse ''x'') testDoc"
    by simp
  from sampling_gate[OF drawn later[symmetric] once[symmetric] always[symmetric] refl refl,
      where Check = noCheck and Composite = noComposite]
  have b: "snoopOnResponseHandler noCheck noComposite (Some atMostOnce) None (jsonResponse ''y'') sampledDoc
     = (sampledDoc, None)"
    by simp
  from sampling_gate[OF drawn later[symmetric] defaults(2)[symmetric] defaults(1)[symmetric] refl refl,
      where Check = noCheck and Composite = noComposite]
  have c: "snoopOnResponseHandler noCheck noComposite None None (jsonResponse ''y'') sampledDoc
     = sampleResponse noCheck noComposite None None (jsonResponse ''y'') sampledDoc"
    by (simp add: half)
  from drawn first' a later' once b defaults c show ?thesis by simp
qed


text \<open>
  C3. For two object schemas \<open>a\<close> and \<open>b\<close> (objects whose \<open>required\<close> is missing or an
  array of names), \<open>mergeObjectSchemas([a, b])\<close> returns a schema, the composite that
  TypeBox builds for the intersection of the two, and the set of names under its
  \<open>required\<close> is exactly the intersection of the required sets of \<open>a\<close> and \<open>b\<close>: a
  property is required in the result only if it is required on both sides.
\<close>

theorem mergeObjectSchemas_required:
  assumes "requiredWellTyped a" and "requiredWellTyped b"
  shows "\<exists>m. mergeObjectSchemas Composite a b = Inr m
           \<and> requiredSet m = requiredSet a \<inter> requiredSet b
           \<and> requiredSet m \<subseteq> requiredSet a \<and> requiredSet m \<subseteq> requiredSet b"
proof -
  from assms obtain ka kb where o: "a = Obj ka" "b = Obj kb"
    by (cases a; cases b) (auto simp: requiredWellTyped_def)
  from existsInBoth_sound[OF assms] obtain r where
    r: "existsInBoth a b = Inr r" "set r = requiredSet a \<inter> requiredSet b" by blast
  let ?m = "setProp ''required'' (Arr r) (Obj (Composite a b))"
  have m: "mergeObjectSchemas Composite a b = Inr ?m"
    using o r(1) by (simp add: mergeObjectSchemas_def)
  have "requiredSet ?m = set r"
    by (simp add: requiredSet_def getProp_putKey_same del: getProp.simps)
  with m r(2) show ?thesis by auto
qed

theorem mergeObjectSchemas_required_witness:
  "requiredWellTyped (Obj [(Key ''type'', Str ''object''),
       (Key ''required'', Arr [Str ''a'', Str ''b''])])
   \<and> requiredWellTyped (Obj [(Key ''type'', Str ''object''),
       (Key ''required'', Arr [Str ''b'', Str ''c''])])
   \<and> (\<exists>m. mergeObjectSchemas (\<lambda>x y. [(Key ''type'', Str ''object'')])
         (Obj [(Key ''type'', Str ''object''), (Key ''required'', Arr [Str ''a'', Str ''b''])])
         (Obj [(Key ''type'', Str ''object''), (Key ''required'', Arr [Str ''b'', Str ''c''])])
       = Inr m
       \<and> requiredSet m = {Str ''b''})"
proof -
  let ?a = "Obj [(Key ''type'', Str ''object''), (Key ''required'', Arr [Str ''a'', Str ''b''])]"
  let ?b = "Obj [(Key ''type'', Str ''object''), (Key ''required'', Arr [Str ''b'', Str ''c''])]"
  have wa: "requiredWellTyped ?a" by (simp add: requiredWellTyped_def)
  have wb: "requiredWellTyped ?b" by (simp add: requiredWellTyped_def)
  have i: "requiredSet ?a \<inter> requiredSet ?b = {Str ''b''}"
    by (auto simp: requiredSet_def)
  from mergeObjectSchemas_required[OF wa wb, of "\<lambda>x y. [(Key ''type'', Str ''object'')]"] wa wb i
  show ?thesis by auto
qed

text \<open>
  C4. \<open>flattenIntersections\<close> on an intersection is claimed to flatten each member
  and keep the flattened members. The source computes the flattened member and then keeps
  the member as it came: on the intersection of an array of \<open>String & String\<close> with
  a number, the result still holds the array with the inner intersection, although
  flattening that array by itself collapses its item to the one string.
\<close>

theorem flattenIntersections_member_kept_unflattened:
  "flattenIntersections (IntersectCreate [sample_array, Type_Number Undefined] Undefined)
     = Inr (IntersectCreate [sample_array, Type_Number Undefined] Undefined)
   \<and> flattenIntersections sample_array = Inr (Type_Array (sample_text ''p'') Undefined)
   \<and> sample_array \<noteq> Type_Array (sample_text ''p'') Undefined"
  by code_simp

text \<open>
  C5. Flattening is claimed idempotent on intersections. On the intersection of two
  closed objects that differ by an example only, the first application returns the first
  object as it came (with \<open>additionalProperties: false\<close>); the second application
  rebuilds that object without the option, and the two results are not deep-equal, with
  or without the examples.
\<close>

theorem flattenIntersections_twice_differs:
  "flattenIntersections (IntersectCreate [sample_object ''p'', sample_object ''q''] Undefined)
     = Inr (sample_object ''p'')
   \<and> flattenIntersections (sample_object ''p'')
     = Inr (Type_Object [(Key ''a'', sample_text ''p'')] Undefined)
   \<and> \<not> isDeepEqual (Type_Object [(Key ''a'', sample_text ''p'')] Undefined) (sample_object ''p'')
         [''example'']"
  by code_simp

text \<open>
  C6. Registering a body schema node twice is claimed to return the same reference name.
  The first call returns \<open>#/components/schemas/<name>\<close> and writes
  \<open>#/components/schema/<name>\<close> (without the \<open>s\<close>) into the reference map of the
  node; the second call returns what the map holds. The second call adds no entry.
\<close>

theorem addBodyTypeToSchema_second_reference_differs:
  "(case addBodyTypeToSchema ''FooRequest_post'' (langSchema ''de'') emptyDoc of
      Inl e \<Rightarrow> False
    | Inr (ref1, node1, doc1) \<Rightarrow>
        ref1 = Str ''#/components/schemas/FooRequest_post''
        \<and> addBodyTypeToSchema ''FooRequest_post'' node1 doc1
            = Inr (Str ''#/components/schema/FooRequest_post'', node1, doc1))"
  by code_simp

text \<open>
  C7. Registering the same parameter node twice returns the identical reference both
  times, and the second call leaves the node and the document as the first call left them
  (no second entry). The second call takes the fast path through the reference map of the
  node, except when the first call reused an existing entry that is deep-equal to the
  parameter: that branch returns without writing the reference to the node, and the second
  call probes the document again, with the same answer.
\<close>

theorem addParameterToSchema_twice:
  assumes first: "addParameterToSchema parameter schema rootDoc = Inr (ref, schema1, rootDoc1)"
    and node: "nodeWellFormed schema"
  shows "addParameterToSchema parameter schema1 rootDoc1 = Inr (ref, schema1, rootDoc1)
         \<and> (refOf schema1 (templateStr (getProp parameter ''in'')) \<noteq> Undefined
            \<or> (schema1 = schema \<and> rootDoc1 = rootDoc
                \<and> (\<exists>name. ref = Str (''#/components/parameters/'' @ name)
                     \<and> isDeepEqual parameter
                          (getProp (getProp (getProp rootDoc ''components'') ''parameters'') name)
                          [''open_api_ref''])))"
proof -
  let ?loc = "templateStr (getProp parameter ''in'')"
  from first have nn: "\<not> nullish schema" "\<not> nullish parameter"
    by (auto simp: addParameterToSchema_def split: if_splits)
  show ?thesis
  proof (cases "refOf schema ?loc \<noteq> Undefined")
    case True
    with first nn show ?thesis by (auto simp: addParameterToSchema_def Let_def)
  next
    case False
    let ?declared = "getProp (getProp rootDoc ''components'') ''parameters''"
    let ?ps = "if ?declared = Undefined then Obj [] else ?declared"
    let ?base = "templateStr (getProp parameter ''name'') @ ''_'' @ ?loc"
    from first False nn have comp: "\<not> nullish (getProp rootDoc ''components'')" and pn: "?ps \<noteq> Null"
      by (auto simp: addParameterToSchema_def Let_def split: if_splits)
    show ?thesis
    proof (cases "probeName parameter ?ps ?base 0 ?base")
      case Exhausted
      with first False nn comp pn show ?thesis
        by (simp add: addParameterToSchema_def Let_def split: if_splits)
    next
      case (Reuse n)
      have defined: "?declared \<noteq> Undefined"
      proof
        assume u: "?declared = Undefined"
        from Reuse have "probeName parameter (Obj []) ?base 0 ?base = Reuse n"
          unfolding u by simp
        then show False by (simp add: probeName_empty)
      qed
      with first False nn comp pn Reuse have r: "ref = Str (''#/components/parameters/'' @ n)"
        "schema1 = schema" "rootDoc1 = rootDoc"
        by (simp_all add: addParameterToSchema_def Let_def split: if_splits)
      from probeName_Reuse[OF Reuse] defined
      have "isDeepEqual parameter (getProp ?declared n) [''open_api_ref'']" by simp
      with r first show ?thesis by blast
    next
      case (Fresh n)
      with first False nn comp pn have r: "ref = Str (''#/components/parameters/'' @ n)"
        "schema1 = writeRef ?loc (''#/components/parameters/'' @ n) schema"
        by (simp_all add: addParameterToSchema_def Let_def split: if_splits)
      from refOf_writeRef[OF node] r have ro: "refOf schema1 ?loc = ref" by simp
      from writeRef_Obj[OF node] r have "\<not> nullish schema1" by simp
      with ro r nn show ?thesis by (simp add: addParameterToSchema_def Let_def)
    qed
  qed
qed

text \<open>
  The case the claim leaves out: the document already holds \<open>lang_query\<close>, registered
  from another node with the same content. The first call returns that name and leaves the
  node without a reference, so the second call cannot take the fast path.
\<close>

theorem addParameterToSchema_reuse_no_fast_path:
  "addParameterToSchema (langParam (langSchema ''de'')) (langSchema ''de'') langDoc
     = Inr (Str ''#/components/parameters/lang_query'', langSchema ''de'', langDoc)
   \<and> refOf (langSchema ''de'') ''query'' = Undefined"
  by code_simp

theorem addParameterToSchema_twice_witness:
  "nodeWellFormed (langSchema ''de'')
   \<and> addParameterToSchema (langParam (langSchema ''de'')) (langSchema ''de'') emptyDoc
       = Inr (Str ''#/components/parameters/lang_query'',
              writeRef ''query'' ''#/components/parameters/lang_query'' (langSchema ''de''), langDoc)
   \<and> addParameterToSchema (langParam (langSchema ''de''))
         (writeRef ''query'' ''#/components/parameters/lang_query'' (langSchema ''de'')) langDoc
       = Inr (Str ''#/components/parameters/lang_query'',
              writeRef ''query'' ''#/components/parameters/lang_query'' (langSchema ''de''), langDoc)"
proof -
  have w: "nodeWellFormed (langSchema ''de'')" by code_simp
  have f: "addParameterToSchema (langParam (langSchema ''de'')) (langSchema ''de'') emptyDoc
       = Inr (Str ''#/components/parameters/lang_query'',
              writeRef ''query'' ''#/components/parameters/lang_query'' (langSchema ''de''), langDoc)"
    by code_simp
  from addParameterToSchema_twice[OF f w] w f show ?thesis by simp
qed










end
